theory Spec2Isabelle
  imports Complex_Main "HOL-Library.AList"
begin

section \<open>Queue nodes\<close>

text \<open>
  The scheduler keeps pending requests in a tree of named nodes. The selection
  algorithms of \<^verbatim>\<open>package queue\<close> read and write three things of a node: its name,
  its map from child names to child nodes, and whether it is empty.
\<close>

type_synonym QueuePath = "string list"

text \<open>
  Modelled from the spec: the \<^verbatim>\<open>Node\<close> struct is declared in a file that is not part
  of the sources. The spec's data model gives a node a name, a local FIFO of opaque
  items, a mapping from child name to child node that the parent owns exclusively, and
  a rotation order with a cursor into it. The Go map is an association list with
  unique keys; no code under verification iterates over it.
\<close>

datatype 'a Node =
  Node (Name: string) (localQueue: "'a list") (queueMap: "(string \<times> 'a Node) list")
       (queueOrder: "string list") (queuePosition: int)

definition set_queueMap :: "(string \<times> 'a Node) list \<Rightarrow> 'a Node \<Rightarrow> 'a Node" where
  "set_queueMap m n = Node (Name n) (localQueue n) m (queueOrder n) (queuePosition n)"

definition set_localQueue :: "'a list \<Rightarrow> 'a Node \<Rightarrow> 'a Node" where
  "set_localQueue l n = Node (Name n) l (queueMap n) (queueOrder n) (queuePosition n)"

text \<open>
  Modelled from the spec: \<^verbatim>\<open>ItemCount\<close> and \<^verbatim>\<open>IsEmpty\<close> of a node (their bodies are
  not part of the sources). The spec: "\<^verbatim>\<open>IsEmpty()\<close> holds iff the root subtree has zero
  items recursively".
\<close>

fun ItemCount :: "'a Node \<Rightarrow> nat" where
  "ItemCount (Node nm l m ord pos) = length l + sum_list (map (\<lambda>(k, c). ItemCount c) m)"

definition IsEmpty :: "'a Node \<Rightarrow> bool" where
  "IsEmpty n = (ItemCount n = 0)"

text \<open>
  A \<^verbatim>\<open>*Node\<close> handed between the tree and a selection algorithm is one of three
  things: \<^verbatim>\<open>nil\<close>, the node the algorithm was called on, or one of its children. A
  child reference carries the child as it is at the time of the call.
\<close>

datatype 'a NodeRef = NilNode | SelfNode | ChildNode "'a Node"

text \<open>The Go run-time panics the modelled code can raise.\<close>

datatype panic = IndexOutOfRange | SliceBoundsOutOfRange

text \<open>
  \<^verbatim>\<open>localQueueIndex\<close>: the constant's declaration is not part of the sources; its value
  is the one the test fixture writes (\<^verbatim>\<open>currentNodeOrderIndex: -1\<close>) and the comment in
  \<^verbatim>\<open>addChildNode\<close> names ("cannot slice into nodeOrder with index -1").
\<close>

definition localQueueIndex :: int where
  "localQueueIndex = -1"

section \<open>float64 arithmetic\<close>

text \<open>
  \<^verbatim>\<open>targetReservedCapacity\<close> is a \<^verbatim>\<open>float64\<close>. A finite \<^verbatim>\<open>float64\<close> is an integer
  significand times a power of two, and each arithmetic operation returns the exact
  result rounded to the nearest number with a significand of at most 53 bits, ties to
  the even significand. The exponent range is not bounded here: the one product the
  code forms is compared with \<open>1\<close> by \<^verbatim>\<open>math.Max\<close>, so a result below the normal range
  is replaced by \<open>1\<close> either way, and overflow needs a factor that is no fraction of the
  worker count. NaN and the infinities are not values of the model.
\<close>

datatype float64 = Float64 (significand: int) (exponent: int)

definition pow2 :: "int \<Rightarrow> rat" where
  "pow2 k = (if 0 \<le> k then 2 ^ nat k else 1 / 2 ^ nat (- k))"

text \<open>The number a \<^verbatim>\<open>float64\<close> stands for.\<close>

definition f64_val :: "float64 \<Rightarrow> rat" where
  "f64_val x = of_int (significand x) * pow2 (exponent x)"

text \<open>The number of binary digits of a positive integer.\<close>

function bitLength :: "int \<Rightarrow> nat" where
  "bitLength n = (if n \<le> 0 then 0 else Suc (bitLength (n div 2)))"
  by pat_completeness auto
termination
  by (relation "measure nat") auto

declare bitLength.simps [simp del]

text \<open>Rounding an exact result \<open>m * 2 ^ e\<close> to 53 bits, to nearest, ties to even.\<close>

definition f64_round :: "int \<Rightarrow> int \<Rightarrow> float64" where
  "f64_round m e =
     (let n = bitLength \<bar>m\<bar>
      in if n \<le> 53 then Float64 m e
         else
           let s = n - 53;
               q = \<bar>m\<bar> div 2 ^ s;
               r = \<bar>m\<bar> mod 2 ^ s;
               half = 2 ^ (s - 1);
               q' = (if r < half then q else if half < r then q + 1
                     else if even q then q else q + 1)
           in Float64 (sgn m * q') (e + int s))"

text \<open>\<^verbatim>\<open>float64(n)\<close> for an \<^verbatim>\<open>int\<close>, and the product \<^verbatim>\<open>x * y\<close> of two \<^verbatim>\<open>float64\<close>.\<close>

definition f64_of_int :: "int \<Rightarrow> float64" where
  "f64_of_int n = f64_round n 0"

definition f64_mul :: "float64 \<Rightarrow> float64 \<Rightarrow> float64" where
  "f64_mul x y = f64_round (significand x * significand y) (exponent x + exponent y)"

text \<open>The comparison \<^verbatim>\<open>x > 0\<close>.\<close>

definition f64_positive :: "float64 \<Rightarrow> bool" where
  "f64_positive x = (0 < significand x)"

text \<open>\<^verbatim>\<open>math.Max(x, 1)\<close>.\<close>

definition f64_max_one :: "float64 \<Rightarrow> float64" where
  "f64_max_one x =
     (if (if 0 \<le> exponent x then significand x * 2 ^ nat (exponent x) \<le> 1
          else significand x \<le> 2 ^ nat (- exponent x))
      then Float64 1 0 else x)"

text \<open>\<^verbatim>\<open>int(math.Ceil(x))\<close>, for a result within the range of \<^verbatim>\<open>int\<close>.\<close>

definition f64_ceil_int :: "float64 \<Rightarrow> int" where
  "f64_ceil_int x =
     (if 0 \<le> exponent x then significand x * 2 ^ nat (exponent x)
      else - ((- significand x) div 2 ^ nat (- exponent x)))"

section \<open>The utilization check\<close>

text \<open>
  \<^verbatim>\<open>QueryComponent\<close> is a string type with two named constants; the empty string is
  "no component".
\<close>

datatype QueryComponent = NoComponent | Ingester | StoreGateway

text \<open>
  \<^verbatim>\<open>QueryComponentUtilization\<close>: the struct's declaration is not part of the sources;
  these are the three fields \<^verbatim>\<open>ExceedsThresholdForComponentName\<close> reads. The in-flight
  counters and the worker counts are Go \<^verbatim>\<open>int\<close>s, far from the 64-bit range; they are
  mathematical integers here.
\<close>

record QueryComponentUtilization =
  targetReservedCapacity :: float64
  ingesterInflightRequests :: int
  storeGatewayInflightRequests :: int

record queryComponentUtilizationReserveConnections =
  utilization :: QueryComponentUtilization
  connectedWorkers :: int
  waitingWorkers :: int
  queueLen :: int

text \<open>
  The local \<^verbatim>\<open>minReservedConnections\<close> of \<^verbatim>\<open>ExceedsThresholdForComponentName\<close>:
  \<^verbatim>\<open>int(math.Ceil(math.Max(targetReservedCapacity*float64(connectedWorkers), 1)))\<close> when
  the target is positive, and \<open>0\<close> otherwise.
\<close>

definition minReservedConnections :: "queryComponentUtilizationReserveConnections \<Rightarrow> int" where
  "minReservedConnections qcurc =
     (if f64_positive (targetReservedCapacity (utilization qcurc))
      then f64_ceil_int
             (f64_max_one
               (f64_mul (targetReservedCapacity (utilization qcurc))
                        (f64_of_int (connectedWorkers qcurc))))
      else 0)"

text \<open>
  \<^verbatim>\<open>ExceedsThresholdForComponentName\<close>. The helper \<^verbatim>\<open>queryComponentFlags\<close> is not part
  of the sources: it is the parameter \<open>flags\<close>, which answers for a name whether it
  stands for the ingesters and whether it stands for the store-gateways.
\<close>

definition ExceedsThresholdForComponentName ::
  "(string \<Rightarrow> bool \<times> bool) \<Rightarrow> queryComponentUtilizationReserveConnections \<Rightarrow> string \<Rightarrow>
   bool \<times> QueryComponent" where
  "ExceedsThresholdForComponentName flags qcurc nm =
     (if connectedWorkers qcurc \<le> 1 then (False, NoComponent)
      else
        let (isIngester, isStoreGateway) = flags nm
        in if isIngester
              \<and> connectedWorkers qcurc - ingesterInflightRequests (utilization qcurc)
                  \<le> minReservedConnections qcurc
           then (True, Ingester)
           else if isStoreGateway
              \<and> connectedWorkers qcurc - storeGatewayInflightRequests (utilization qcurc)
                  \<le> minReservedConnections qcurc
           then (True, StoreGateway)
           else (False, NoComponent))"

definition TriggerUtilizationCheck :: "queryComponentUtilizationReserveConnections \<Rightarrow> bool" where
  "TriggerUtilizationCheck qcurc = (if waitingWorkers qcurc > queueLen qcurc then False else True)"

text \<open>
  Modelled from the spec: \<^verbatim>\<open>queryComponentFlags\<close>, for the concrete runs below. The
  spec: the two kinds are "recognized by name-matching a routing-dimension string", and
  a name that matches neither kind is never skipped.
\<close>

definition queryComponentFlags :: "string \<Rightarrow> bool \<times> bool" where
  "queryComponentFlags nm = (nm = ''ingester'', nm = ''store-gateway'')"

section \<open>The skip-over selection algorithm\<close>

text \<open>
  \<^verbatim>\<open>queryComponentUtilizationDequeueSkipOverThreshold\<close>. Its field
  \<^verbatim>\<open>queryComponentUtilizationThreshold\<close> holds the utilization check behind the interface
  \<^verbatim>\<open>queryComponentUtilizationCheck\<close>, whose one implementation is
  \<^verbatim>\<open>queryComponentUtilizationReserveConnections\<close>. Its counters change as requests go in
  flight, so \<^verbatim>\<open>dequeueSelectNode\<close> takes it as an argument (with the \<open>flags\<close> helper it
  calls).
\<close>

record queryComponentUtilizationDequeueSkipOverThreshold =
  currentNodeOrderIndex :: int
  nodeOrder :: "string list"
  nodesChecked :: int
  nodesSkippedOrder :: "string list"

definition checkedAllNodes :: "queryComponentUtilizationDequeueSkipOverThreshold \<Rightarrow> bool" where
  "checkedAllNodes qcud =
     (nodesChecked qcud = int (length (nodeOrder qcud)) + 1 \<and> length (nodesSkippedOrder qcud) = 0)"

text \<open>
  \<^verbatim>\<open>addChildNode\<close>. The slice expressions \<^verbatim>\<open>nodeOrder[:i]\<close> and \<^verbatim>\<open>nodeOrder[i:]\<close> panic
  unless \<open>0 \<le> i \<le> len(nodeOrder)\<close>. The inner \<^verbatim>\<open>append\<close> copies the tail into a fresh
  slice before the outer one writes, so the result is the plain insertion.
\<close>

definition addChildNode ::
  "queryComponentUtilizationDequeueSkipOverThreshold \<Rightarrow> 'a Node \<Rightarrow> 'a Node \<Rightarrow>
   panic + (queryComponentUtilizationDequeueSkipOverThreshold \<times> 'a Node)" where
  "addChildNode qcud parent child =
     (let parent' = set_queueMap (AList.update (Name child) child (queueMap parent)) parent;
          i = currentNodeOrderIndex qcud
      in if i = localQueueIndex
         then Inr (qcud\<lparr>nodeOrder := nodeOrder qcud @ [Name child]\<rparr>, parent')
         else if 0 \<le> i \<and> i \<le> int (length (nodeOrder qcud))
         then Inr (qcud\<lparr>nodeOrder :=
                           take (nat i) (nodeOrder qcud) @ ([Name child] @ drop (nat i) (nodeOrder qcud)),
                         currentNodeOrderIndex := i + 1\<rparr>, parent')
         else Inl SliceBoundsOutOfRange)"

text \<open>The child a name stands for in the node's map: \<^verbatim>\<open>node.queueMap[name]\<close>, \<^verbatim>\<open>nil\<close>
  when the key is absent.\<close>

definition queueMapRef :: "'a Node \<Rightarrow> string \<Rightarrow> 'a NodeRef" where
  "queueMapRef node nm = (case map_of (queueMap node) nm of None \<Rightarrow> NilNode | Some c \<Rightarrow> ChildNode c)"

text \<open>
  \<^verbatim>\<open>dequeueSelectNode\<close>. It returns the selected node, the value of
  \<^verbatim>\<open>checkedAllNodes()\<close> after the call's own updates, and the updated state. The index
  expression \<^verbatim>\<open>nodeOrder[currentNodeOrderIndex]\<close> panics out of range. The final
  \<^verbatim>\<open>for\<close> loop returns in its first iteration, so it is a case distinction on the
  skipped list.
\<close>

definition dequeueSelectNode ::
  "(string \<Rightarrow> bool \<times> bool) \<Rightarrow> queryComponentUtilizationReserveConnections \<Rightarrow>
   queryComponentUtilizationDequeueSkipOverThreshold \<Rightarrow> 'a Node \<Rightarrow>
   panic + ('a NodeRef \<times> bool \<times> queryComponentUtilizationDequeueSkipOverThreshold)" where
  "dequeueSelectNode flags chk qcud node =
     (if currentNodeOrderIndex qcud = localQueueIndex
      then Inr (SelfNode, checkedAllNodes qcud, qcud)
      else
        let checkedAllNodesBeforeSkips = (nodesChecked qcud = int (length (nodeOrder qcud)) + 1)
        in if \<not> checkedAllNodesBeforeSkips
           then
             (if 0 \<le> currentNodeOrderIndex qcud
                 \<and> currentNodeOrderIndex qcud < int (length (nodeOrder qcud))
              then
                let currentNodeName = nodeOrder qcud ! nat (currentNodeOrderIndex qcud)
                in if TriggerUtilizationCheck chk
                   then
                     (let exceedsThreshold = fst (ExceedsThresholdForComponentName flags chk currentNodeName)
                      in if exceedsThreshold
                         then
                           (let q1 = qcud\<lparr>nodesSkippedOrder := nodesSkippedOrder qcud @ [currentNodeName]\<rparr>;
                                q2 = q1\<lparr>currentNodeOrderIndex := currentNodeOrderIndex q1 + 1\<rparr>;
                                q3 = q2\<lparr>nodesChecked := nodesChecked q2 + 1\<rparr>
                            in Inr (NilNode, checkedAllNodes q3, q3))
                         else
                           (let q1 = qcud\<lparr>nodesChecked := nodesChecked qcud + 1\<rparr>
                            in Inr (queueMapRef node currentNodeName, checkedAllNodes q1, q1)))
                   else
                     (let q1 = qcud\<lparr>nodesChecked := nodesChecked qcud + 1\<rparr>
                      in Inr (queueMapRef node currentNodeName, checkedAllNodes q1, q1))
              else Inl IndexOutOfRange)
           else
             (case nodesSkippedOrder qcud of
                currentNodeName # rest \<Rightarrow>
                  (let q1 = qcud\<lparr>nodesSkippedOrder := rest\<rparr>
                   in Inr (queueMapRef node currentNodeName, checkedAllNodes q1, q1))
              | [] \<Rightarrow> Inr (NilNode, checkedAllNodes qcud, qcud)))"

text \<open>
  The loop of \<^verbatim>\<open>dequeueUpdateState\<close> over \<^verbatim>\<open>nodeOrder\<close>: it cuts out the first element
  equal to \<^verbatim>\<open>childName\<close> and breaks.
\<close>

fun removeFirstName :: "string \<Rightarrow> string list \<Rightarrow> string list" where
  "removeFirstName childName [] = []"
| "removeFirstName childName (nm # rest) =
     (if nm = childName then rest else nm # removeFirstName childName rest)"

text \<open>
  \<^verbatim>\<open>dequeueUpdateState\<close>. \<^verbatim>\<open>dequeuedFrom != node\<close> compares pointers: it holds for a
  child and fails for the node itself.
\<close>

definition dequeueUpdateState ::
  "queryComponentUtilizationDequeueSkipOverThreshold \<Rightarrow> 'a Node \<Rightarrow> 'a NodeRef \<Rightarrow>
   queryComponentUtilizationDequeueSkipOverThreshold \<times> 'a Node" where
  "dequeueUpdateState qcud node dequeuedFrom =
     (case dequeuedFrom of
        NilNode \<Rightarrow> (qcud, node)
      | _ \<Rightarrow>
        (let (q1, node') =
               (case dequeuedFrom of
                  ChildNode c \<Rightarrow>
                    if IsEmpty c
                    then (qcud\<lparr>nodeOrder := removeFirstName (Name c) (nodeOrder qcud)\<rparr>,
                          set_queueMap (AList.delete (Name c) (queueMap node)) node)
                    else (qcud\<lparr>currentNodeOrderIndex := currentNodeOrderIndex qcud + 1\<rparr>, node)
                | _ \<Rightarrow> (qcud\<lparr>currentNodeOrderIndex := currentNodeOrderIndex qcud + 1\<rparr>, node));
             q2 = (if currentNodeOrderIndex q1 \<ge> int (length (nodeOrder q1))
                   then q1\<lparr>currentNodeOrderIndex := localQueueIndex\<rparr> else q1)
         in (q2\<lparr>nodesChecked := 0\<rparr>, node')))"

section \<open>The round-robin selection algorithm\<close>

text \<open>
  Modelled from the spec: \<^verbatim>\<open>roundRobinState\<close>, whose code is not part of the sources (the
  test builds the tree with it for the level below the root). The spec: "\<^verbatim>\<open>addChildNode\<close>
  appends new names to the rotation order", \<^verbatim>\<open>dequeueSelectNode\<close> "returns the child at
  the cursor", \<^verbatim>\<open>dequeueUpdateState\<close> "removes an emptied child from the rotation (without
  double-advancing) and otherwise advances the cursor, wrapping at the end". The rotation
  order and the cursor are the node's own. The algorithm has checked all nodes once the
  dequeue call has made as many selections as the rotation has slots, the local queue
  included; \<open>attempts\<close> is the number of selections the call has made before.
\<close>

definition set_rotation :: "string list \<Rightarrow> int \<Rightarrow> 'a Node \<Rightarrow> 'a Node" where
  "set_rotation ord pos n = Node (Name n) (localQueue n) (queueMap n) ord pos"

definition rr_addChildNode :: "'a Node \<Rightarrow> 'a Node \<Rightarrow> 'a Node" where
  "rr_addChildNode parent child =
     set_rotation (queueOrder parent @ [Name child]) (queuePosition parent)
       (set_queueMap (AList.update (Name child) child (queueMap parent)) parent)"

definition rr_dequeueSelectNode :: "'a Node \<Rightarrow> nat \<Rightarrow> panic + ('a NodeRef \<times> bool)" where
  "rr_dequeueSelectNode node attempts =
     (let checkedAll = (length (queueOrder node) \<le> attempts)
      in if queuePosition node = localQueueIndex then Inr (SelfNode, checkedAll)
         else if 0 \<le> queuePosition node \<and> queuePosition node < int (length (queueOrder node))
         then Inr (queueMapRef node (queueOrder node ! nat (queuePosition node)), checkedAll)
         else Inl IndexOutOfRange)"

definition rr_dequeueUpdateState :: "'a Node \<Rightarrow> 'a NodeRef \<Rightarrow> 'a Node" where
  "rr_dequeueUpdateState node dequeuedFrom =
     (case dequeuedFrom of
        NilNode \<Rightarrow> node
      | _ \<Rightarrow>
        (let node1 =
               (case dequeuedFrom of
                  ChildNode c \<Rightarrow>
                    if IsEmpty c
                    then set_rotation (remove1 (Name c) (queueOrder node)) (queuePosition node)
                           (set_queueMap (AList.delete (Name c) (queueMap node)) node)
                    else set_rotation (queueOrder node) (queuePosition node + 1) node
                | _ \<Rightarrow> set_rotation (queueOrder node) (queuePosition node + 1) node)
         in if int (length (queueOrder node1)) \<le> queuePosition node1
            then set_rotation (queueOrder node1) localQueueIndex node1 else node1))"

section \<open>The tree\<close>

text \<open>
  Modelled from the spec: \<^verbatim>\<open>Tree\<close>, \<^verbatim>\<open>NewTree\<close> and \<^verbatim>\<open>getNode\<close>, whose code is not part of
  the sources, and the dispatch of the three operations of a selection algorithm. The
  spec: a tree is a root node "plus one selection-algorithm instance per depth level";
  the selection policies are variants behind one small interface, "one implementation
  per policy, composed per tree depth".
\<close>

datatype DequeueAlgorithm =
  SkipOverThreshold queryComponentUtilizationDequeueSkipOverThreshold
| RoundRobin

record 'a Tree =
  rootNode :: "'a Node"
  algosByDepth :: "DequeueAlgorithm list"

definition newNode :: "string \<Rightarrow> 'a Node" where
  "newNode nm = Node nm [] [] [] localQueueIndex"

definition NewTree :: "DequeueAlgorithm list \<Rightarrow> 'a Tree" where
  "NewTree algos = \<lparr>rootNode = newNode ''root'', algosByDepth = algos\<rparr>"

fun getNode :: "'a Node \<Rightarrow> QueuePath \<Rightarrow> 'a Node option" where
  "getNode node [] = Some node"
| "getNode node (nm # rest) =
     (case map_of (queueMap node) nm of None \<Rightarrow> None | Some c \<Rightarrow> getNode c rest)"

definition algo_addChildNode ::
  "DequeueAlgorithm \<Rightarrow> 'a Node \<Rightarrow> 'a Node \<Rightarrow> panic + (DequeueAlgorithm \<times> 'a Node)" where
  "algo_addChildNode algo parent child =
     (case algo of
        SkipOverThreshold qcud \<Rightarrow>
          (case addChildNode qcud parent child of
             Inl p \<Rightarrow> Inl p
           | Inr (qcud', parent') \<Rightarrow> Inr (SkipOverThreshold qcud', parent'))
      | RoundRobin \<Rightarrow> Inr (RoundRobin, rr_addChildNode parent child))"

definition algo_dequeueSelectNode ::
  "(string \<Rightarrow> bool \<times> bool) \<Rightarrow> queryComponentUtilizationReserveConnections \<Rightarrow>
   DequeueAlgorithm \<Rightarrow> 'a Node \<Rightarrow> nat \<Rightarrow> panic + ('a NodeRef \<times> bool \<times> DequeueAlgorithm)" where
  "algo_dequeueSelectNode flags chk algo node attempts =
     (case algo of
        SkipOverThreshold qcud \<Rightarrow>
          (case dequeueSelectNode flags chk qcud node of
             Inl p \<Rightarrow> Inl p
           | Inr (r, checkedAll, qcud') \<Rightarrow> Inr (r, checkedAll, SkipOverThreshold qcud'))
      | RoundRobin \<Rightarrow>
          (case rr_dequeueSelectNode node attempts of
             Inl p \<Rightarrow> Inl p
           | Inr (r, checkedAll) \<Rightarrow> Inr (r, checkedAll, RoundRobin)))"

definition algo_dequeueUpdateState ::
  "DequeueAlgorithm \<Rightarrow> 'a Node \<Rightarrow> 'a NodeRef \<Rightarrow> DequeueAlgorithm \<times> 'a Node" where
  "algo_dequeueUpdateState algo node dequeuedFrom =
     (case algo of
        SkipOverThreshold qcud \<Rightarrow>
          (let (qcud', node') = dequeueUpdateState qcud node dequeuedFrom
           in (SkipOverThreshold qcud', node'))
      | RoundRobin \<Rightarrow> (RoundRobin, rr_dequeueUpdateState node dequeuedFrom))"

text \<open>
  Modelled from the spec: the enqueue along a path (\<^verbatim>\<open>enqueueBackByPath\<close>,
  \<^verbatim>\<open>enqueueFrontByPath\<close>), whose code is not part of the sources.
  The spec: "Enqueue creates any missing intermediate nodes along \<^verbatim>\<open>path\<close> lazily,
  registers each newly created node with its parent's selection algorithm
  (\<^verbatim>\<open>addChildNode\<close>), and appends/prepends the item to the terminal node's local queue."
  \<open>front\<close> tells the two enqueues apart. A level without an algorithm is an index out of
  range of the per-depth list.
\<close>

fun enqueueByPath ::
  "bool \<Rightarrow> DequeueAlgorithm list \<Rightarrow> nat \<Rightarrow> 'a Node \<Rightarrow> QueuePath \<Rightarrow> 'a \<Rightarrow>
   panic + ('a Node \<times> DequeueAlgorithm list)" where
  "enqueueByPath front algos depth node [] v =
     Inr (set_localQueue (if front then v # localQueue node else localQueue node @ [v]) node, algos)"
| "enqueueByPath front algos depth node (nm # rest) v =
     (case map_of (queueMap node) nm of
        Some c \<Rightarrow>
          (case enqueueByPath front algos (Suc depth) c rest v of
             Inl p \<Rightarrow> Inl p
           | Inr (c', algos') \<Rightarrow>
               Inr (set_queueMap (AList.update nm c' (queueMap node)) node, algos'))
      | None \<Rightarrow>
          (case enqueueByPath front algos (Suc depth) (newNode nm) rest v of
             Inl p \<Rightarrow> Inl p
           | Inr (c', algos') \<Rightarrow>
               if depth < length algos'
               then (case algo_addChildNode (algos' ! depth) node c' of
                       Inl p \<Rightarrow> Inl p
                     | Inr (a', node') \<Rightarrow> Inr (node', algos'[depth := a']))
               else Inl IndexOutOfRange))"

definition EnqueueBackByPath :: "'a Tree \<Rightarrow> QueuePath \<Rightarrow> 'a \<Rightarrow> panic + 'a Tree" where
  "EnqueueBackByPath t path v =
     (case enqueueByPath False (algosByDepth t) 0 (rootNode t) path v of
        Inl p \<Rightarrow> Inl p
      | Inr (n, algos) \<Rightarrow> Inr \<lparr>rootNode = n, algosByDepth = algos\<rparr>)"

definition EnqueueFrontByPath :: "'a Tree \<Rightarrow> QueuePath \<Rightarrow> 'a \<Rightarrow> panic + 'a Tree" where
  "EnqueueFrontByPath t path v =
     (case enqueueByPath True (algosByDepth t) 0 (rootNode t) path v of
        Inl p \<Rightarrow> Inl p
      | Inr (n, algos) \<Rightarrow> Inr \<lparr>rootNode = n, algosByDepth = algos\<rparr>)"

text \<open>
  Modelled from the spec: \<^verbatim>\<open>dequeue\<close> of a node, whose code is not part of the sources.
  The spec: "Dequeue starts at the root and, at each depth, asks that depth's selection
  algorithm to pick either the local queue (sentinel) or a specific child name; recurses
  into the chosen child; on return, informs the algorithm whether the chosen child became
  empty so it can prune and advance rotation (\<^verbatim>\<open>dequeueUpdateState\<close>). Returns the full
  path actually dequeued from and the item, or a nil item if nothing was eligible."
  A node asks its algorithm again until an item is found or the algorithm reports that
  it has checked all nodes. The loop need not end, so the functions take fuel: \<open>None\<close> is
  a call that has not returned within it.
\<close>

fun dequeueNode ::
  "nat \<Rightarrow> (string \<Rightarrow> bool \<times> bool) \<Rightarrow> queryComponentUtilizationReserveConnections \<Rightarrow>
   DequeueAlgorithm list \<Rightarrow> nat \<Rightarrow> 'a Node \<Rightarrow>
   (panic + (QueuePath \<times> 'a option \<times> 'a Node \<times> DequeueAlgorithm list)) option"
and dequeueLoop ::
  "nat \<Rightarrow> (string \<Rightarrow> bool \<times> bool) \<Rightarrow> queryComponentUtilizationReserveConnections \<Rightarrow>
   DequeueAlgorithm list \<Rightarrow> nat \<Rightarrow> 'a Node \<Rightarrow> nat \<Rightarrow>
   (panic + (QueuePath \<times> 'a option \<times> 'a Node \<times> DequeueAlgorithm list)) option" where
  "dequeueNode 0 flags chk algos depth node = None"
| "dequeueNode (Suc fuel) flags chk algos depth node =
     (if IsEmpty node then Some (Inr ([Name node], None, node, algos))
      else dequeueLoop fuel flags chk algos depth node 0)"
| "dequeueLoop 0 flags chk algos depth node attempts = None"
| "dequeueLoop (Suc fuel) flags chk algos depth node attempts =
     (if \<not> depth < length algos then Some (Inl IndexOutOfRange)
      else
        case algo_dequeueSelectNode flags chk (algos ! depth) node attempts of
          Inl p \<Rightarrow> Some (Inl p)
        | Inr (r, checkedAll, a1) \<Rightarrow>
            (case (case r of
                     SelfNode \<Rightarrow>
                       Some (Inr ([], (case localQueue node of [] \<Rightarrow> None | v # vs \<Rightarrow> Some v),
                                  set_localQueue (tl (localQueue node)) node,
                                  algos[depth := a1], SelfNode))
                   | NilNode \<Rightarrow> Some (Inr ([], None, node, algos[depth := a1], NilNode))
                   | ChildNode c \<Rightarrow>
                       (case dequeueNode fuel flags chk (algos[depth := a1]) (Suc depth) c of
                          None \<Rightarrow> None
                        | Some (Inl p) \<Rightarrow> Some (Inl p)
                        | Some (Inr (childPath, v, c', algos2)) \<Rightarrow>
                            Some (Inr (childPath, v,
                                       set_queueMap (AList.update (Name c) c' (queueMap node)) node,
                                       algos2, ChildNode c'))))
             of
               None \<Rightarrow> None
             | Some (Inl p) \<Rightarrow> Some (Inl p)
             | Some (Inr (childPath, v, node1, algos2, r1)) \<Rightarrow>
                 (case algo_dequeueUpdateState (algos2 ! depth) node1 r1 of
                    (a3, node2) \<Rightarrow>
                      if v = None \<and> \<not> checkedAll
                      then dequeueLoop fuel flags chk (algos2[depth := a3]) depth node2
                             (Suc attempts)
                      else Some (Inr (Name node # (if v = None then [] else childPath), v, node2,
                                      algos2[depth := a3])))))"

text \<open>
  Modelled from the spec: \<^verbatim>\<open>Tree.Dequeue\<close>, whose code is not part of the sources. The test
  expects the path from the root with the root's own name left out, and the empty path
  from an empty tree; the broker's comment says the node's own dequeue "returns the full
  path including root".
\<close>

definition Dequeue ::
  "nat \<Rightarrow> (string \<Rightarrow> bool \<times> bool) \<Rightarrow> queryComponentUtilizationReserveConnections \<Rightarrow> 'a Tree \<Rightarrow>
   (panic + (QueuePath \<times> 'a option \<times> 'a Tree)) option" where
  "Dequeue fuel flags chk t =
     (case dequeueNode fuel flags chk (algosByDepth t) 0 (rootNode t) of
        None \<Rightarrow> None
      | Some (Inl p) \<Rightarrow> Some (Inl p)
      | Some (Inr (path, v, n, algos)) \<Rightarrow>
          Some (Inr (tl path, v, \<lparr>rootNode = n, algosByDepth = algos\<rparr>)))"

text \<open>
  The operations of the test table, run in order; the result lists what each dequeue
  returned.
\<close>

datatype 'a treeOperation = EnqueueOp QueuePath 'a | DequeueOp

fun runTreeOperations ::
  "nat \<Rightarrow> (string \<Rightarrow> bool \<times> bool) \<Rightarrow> queryComponentUtilizationReserveConnections \<Rightarrow> 'a Tree \<Rightarrow>
   'a treeOperation list \<Rightarrow> (panic + (QueuePath \<times> 'a option) list) option" where
  "runTreeOperations fuel flags chk t [] = Some (Inr [])"
| "runTreeOperations fuel flags chk t (EnqueueOp path v # rest) =
     (case EnqueueBackByPath t path v of
        Inl p \<Rightarrow> Some (Inl p)
      | Inr t' \<Rightarrow> runTreeOperations fuel flags chk t' rest)"
| "runTreeOperations fuel flags chk t (DequeueOp # rest) =
     (case Dequeue fuel flags chk t of
        None \<Rightarrow> None
      | Some (Inl p) \<Rightarrow> Some (Inl p)
      | Some (Inr (path, v, t')) \<Rightarrow>
          (case runTreeOperations fuel flags chk t' rest of
             None \<Rightarrow> None
           | Some (Inl p) \<Rightarrow> Some (Inl p)
           | Some (Inr outs) \<Rightarrow> Some (Inr ((path, v) # outs))))"

section \<open>The queue broker\<close>

type_synonym TenantID = string

type_synonym QuerierID = string

definition emptyTenantID :: TenantID where
  "emptyTenantID = []"

text \<open>
  A request is an opaque payload. \<^verbatim>\<open>makeQueuePath\<close> tells a \<^verbatim>\<open>*SchedulerRequest\<close>, which
  carries additional queue dimensions, from any other request.
\<close>

datatype Request = SchedulerRequest (AdditionalQueueDimensions: "string list") | FrontendRequest

record tenantRequest =
  tenantID :: TenantID
  req :: Request

datatype error = ErrTooManyRequests | ErrQuerierShuttingDown | HelperError string

text \<open>
  \<^verbatim>\<open>querierConn\<close>, \<^verbatim>\<open>tenantQuerierAssignments\<close> and \<^verbatim>\<open>shuffleShardState\<close>: the fields the
  broker's functions read and write. The tenant bookkeeping struct \<^verbatim>\<open>queueTenant\<close> is
  the type parameter \<open>'tn\<close>.
\<close>

record querierConn =
  shuttingDown :: bool

record 'tn tenantQuerierAssignments =
  queriersByID :: "QuerierID \<rightharpoonup> querierConn"
  tenantsByID :: "TenantID \<rightharpoonup> 'tn"

record shuffleShardState =
  sharedQueuePosition :: int

text \<open>
  \<^verbatim>\<open>queueBroker\<close>. The tree type is the parameter \<open>'t\<close>. The legacy \<^verbatim>\<open>tenantQueuesTree\<close> is
  built by the constructor and used by none of the functions below.
\<close>

record ('t, 'tn) queueBroker =
  queueTree :: 't
  assignments :: "'tn tenantQuerierAssignments"
  maxTenantQueueSize :: int
  additionalQueueDimensionsEnabled :: bool
  currentQuerier :: QuerierID
  treeShuffleShardState :: shuffleShardState

text \<open>
  The functions the broker calls whose code is not part of the sources, as parameters:
  \<^verbatim>\<open>createOrUpdateTenant\<close> and \<^verbatim>\<open>removeTenant\<close> of the assignments, and \<^verbatim>\<open>getNode\<close>,
  \<^verbatim>\<open>ItemCount\<close>, \<^verbatim>\<open>enqueueBackByPath\<close>, \<^verbatim>\<open>enqueueFrontByPath\<close> and \<^verbatim>\<open>dequeue\<close> of the tree's
  root node. The dequeue reads the broker (the shuffle-shard state points into it) and
  returns the path, the element, the tree and the shared queue position it leaves;
  \<open>None\<close> is a dequeue that does not return.
\<close>

record ('t, 'n, 'tn) brokerHelpers =
  opCreateOrUpdateTenant ::
    "'tn tenantQuerierAssignments \<Rightarrow> TenantID \<Rightarrow> int \<Rightarrow> error option \<times> 'tn tenantQuerierAssignments"
  opRemoveTenant :: "'tn tenantQuerierAssignments \<Rightarrow> TenantID \<Rightarrow> 'tn tenantQuerierAssignments"
  treeGetNode :: "'t \<Rightarrow> QueuePath \<Rightarrow> 'n option"
  nodeItemCount :: "'n \<Rightarrow> int"
  treeEnqueueBackByPath :: "'t \<Rightarrow> QueuePath \<Rightarrow> tenantRequest \<Rightarrow> panic + (error option \<times> 't)"
  treeEnqueueFrontByPath :: "'t \<Rightarrow> QueuePath \<Rightarrow> tenantRequest \<Rightarrow> panic + (error option \<times> 't)"
  treeDequeue ::
    "('t, 'tn) queueBroker \<Rightarrow> (panic + (QueuePath \<times> tenantRequest option \<times> 't \<times> int)) option"

definition makeQueuePath :: "('t, 'tn) queueBroker \<Rightarrow> tenantRequest \<Rightarrow> error + QueuePath" where
  "makeQueuePath qb request =
     (if additionalQueueDimensionsEnabled qb
      then (case req request of
              SchedulerRequest dims \<Rightarrow> Inr ([tenantID request] @ dims)
            | FrontendRequest \<Rightarrow> Inr [tenantID request])
      else Inr [tenantID request])"

text \<open>
  \<^verbatim>\<open>enqueueRequestBack\<close>. The result is the returned error (\<open>None\<close> for \<^verbatim>\<open>nil\<close>) and the
  broker as the call leaves it: the assignments keep what \<^verbatim>\<open>createOrUpdateTenant\<close> wrote
  also when a later step returns an error.
\<close>

definition enqueueRequestBack ::
  "('t, 'n, 'tn) brokerHelpers \<Rightarrow> ('t, 'tn) queueBroker \<Rightarrow> tenantRequest \<Rightarrow> int \<Rightarrow>
   panic + (error option \<times> ('t, 'tn) queueBroker)" where
  "enqueueRequestBack h qb request tenantMaxQueriers =
     (case opCreateOrUpdateTenant h (assignments qb) (tenantID request) tenantMaxQueriers of
        (Some err, tqa) \<Rightarrow> Inr (Some err, qb\<lparr>assignments := tqa\<rparr>)
      | (None, tqa) \<Rightarrow>
          (let qb1 = qb\<lparr>assignments := tqa\<rparr>
           in case makeQueuePath qb1 request of
                Inl err \<Rightarrow> Inr (Some err, qb1)
              | Inr queuePath \<Rightarrow>
                  if (case treeGetNode h (queueTree qb1) (take 1 queuePath) of
                        Some tenantQueueNode \<Rightarrow>
                          nodeItemCount h tenantQueueNode + 1 > maxTenantQueueSize qb1
                      | None \<Rightarrow> False)
                  then Inr (Some ErrTooManyRequests, qb1)
                  else (case treeEnqueueBackByPath h (queueTree qb1) queuePath request of
                          Inl p \<Rightarrow> Inl p
                        | Inr (err, t) \<Rightarrow> Inr (err, qb1\<lparr>queueTree := t\<rparr>))))"

definition enqueueRequestFront ::
  "('t, 'n, 'tn) brokerHelpers \<Rightarrow> ('t, 'tn) queueBroker \<Rightarrow> tenantRequest \<Rightarrow> int \<Rightarrow>
   panic + (error option \<times> ('t, 'tn) queueBroker)" where
  "enqueueRequestFront h qb request tenantMaxQueriers =
     (case opCreateOrUpdateTenant h (assignments qb) (tenantID request) tenantMaxQueriers of
        (Some err, tqa) \<Rightarrow> Inr (Some err, qb\<lparr>assignments := tqa\<rparr>)
      | (None, tqa) \<Rightarrow>
          (let qb1 = qb\<lparr>assignments := tqa\<rparr>
           in case makeQueuePath qb1 request of
                Inl err \<Rightarrow> Inr (Some err, qb1)
              | Inr queuePath \<Rightarrow>
                  (case treeEnqueueFrontByPath h (queueTree qb1) queuePath request of
                     Inl p \<Rightarrow> Inl p
                   | Inr (err, t) \<Rightarrow> Inr (err, qb1\<lparr>queueTree := t\<rparr>))))"

text \<open>
  \<^verbatim>\<open>dequeueRequestForQuerier\<close>. The result is the four returned values (request, tenant,
  shared queue position, error) and the broker as the call leaves it. The slice
  expression \<^verbatim>\<open>queuePath[1:]\<close> panics on an empty path. The tree's items are
  \<^verbatim>\<open>*tenantRequest\<close> by type here, so the final type assertion cannot fail.
\<close>

definition dequeueRequestForQuerier ::
  "('t, 'n, 'tn) brokerHelpers \<Rightarrow> ('t, 'tn) queueBroker \<Rightarrow> int \<Rightarrow> QuerierID \<Rightarrow>
   (panic + ((tenantRequest option \<times> 'tn option \<times> int \<times> error option) \<times> ('t, 'tn) queueBroker)) option"
  where
  "dequeueRequestForQuerier h qb lastTenantIndex querierID =
     (if (case queriersByID (assignments qb) querierID of
            None \<Rightarrow> True
          | Some q \<Rightarrow> shuttingDown q)
      then Some (Inr ((None, None, sharedQueuePosition (treeShuffleShardState qb),
                       Some ErrQuerierShuttingDown), qb))
      else
        let qb1 = qb\<lparr>currentQuerier := querierID,
                     treeShuffleShardState :=
                       (treeShuffleShardState qb)\<lparr>sharedQueuePosition := lastTenantIndex\<rparr>\<rparr>
        in case treeDequeue h qb1 of
             None \<Rightarrow> None
           | Some (Inl p) \<Rightarrow> Some (Inl p)
           | Some (Inr (queuePath, queueElement, t, pos)) \<Rightarrow>
               (let qb2 = qb1\<lparr>queueTree := t,
                              treeShuffleShardState :=
                                (treeShuffleShardState qb1)\<lparr>sharedQueuePosition := pos\<rparr>\<rparr>;
                    tenantID = (if length queuePath > 1 then queuePath ! 1 else emptyTenantID);
                    tenant = tenantsByID (assignments qb2) tenantID
                in if length queuePath < 1 then Some (Inl SliceBoundsOutOfRange)
                   else
                     let qb3 =
                           (case treeGetNode h (queueTree qb2) (drop 1 queuePath) of
                              None \<Rightarrow> qb2\<lparr>assignments := opRemoveTenant h (assignments qb2) tenantID\<rparr>
                            | Some queueNodeAfterDequeue \<Rightarrow> qb2)
                     in Some (Inr ((queueElement, tenant,
                                    sharedQueuePosition (treeShuffleShardState qb3), None), qb3))))"

section \<open>Driving the selection algorithm\<close>

text \<open>
  The tree calls the three operations of a selection algorithm in some order on one
  node. An operation sequence is run from a state and a node; a panic ends the run.
\<close>

datatype 'a operation = AddChild "'a Node" | Select | Update "'a NodeRef"

definition applyOperation ::
  "(string \<Rightarrow> bool \<times> bool) \<Rightarrow> queryComponentUtilizationReserveConnections \<Rightarrow>
   queryComponentUtilizationDequeueSkipOverThreshold \<times> 'a Node \<Rightarrow> 'a operation \<Rightarrow>
   panic + (queryComponentUtilizationDequeueSkipOverThreshold \<times> 'a Node)" where
  "applyOperation flags chk st oper =
     (case oper of
        AddChild c \<Rightarrow> addChildNode (fst st) (snd st) c
      | Select \<Rightarrow>
          (case dequeueSelectNode flags chk (fst st) (snd st) of
             Inl p \<Rightarrow> Inl p
           | Inr (r, done, q) \<Rightarrow> Inr (q, snd st))
      | Update r \<Rightarrow> Inr (dequeueUpdateState (fst st) (snd st) r))"

fun runOperations ::
  "(string \<Rightarrow> bool \<times> bool) \<Rightarrow> queryComponentUtilizationReserveConnections \<Rightarrow>
   queryComponentUtilizationDequeueSkipOverThreshold \<times> 'a Node \<Rightarrow> 'a operation list \<Rightarrow>
   panic + (queryComponentUtilizationDequeueSkipOverThreshold \<times> 'a Node)" where
  "runOperations flags chk st [] = Inr st"
| "runOperations flags chk st (oper # rest) =
     (case applyOperation flags chk st oper of
        Inl p \<Rightarrow> Inl p
      | Inr st' \<Rightarrow> runOperations flags chk st' rest)"



text \<open>
  The state the test fixture starts from: the cursor at the local-queue sentinel and
  every other field at its zero value.
\<close>

definition initialSkipOverState :: queryComponentUtilizationDequeueSkipOverThreshold where
  "initialSkipOverState =
     \<lparr>currentNodeOrderIndex = localQueueIndex, nodeOrder = [], nodesChecked = 0,
      nodesSkippedOrder = []\<rparr>"

section \<open>Concrete values\<close>

text \<open>The \<^verbatim>\<open>float64\<close> nearest to \<open>0.4\<close>: \<^verbatim>\<open>0x3FD999999999999A\<close>.\<close>

definition reservedCapacity04 :: float64 where
  "reservedCapacity04 = Float64 7205759403792794 (- 54)"

text \<open>
  Ten connected workers and a reserved capacity of \<open>0.4\<close>, as in the test, with both
  components over the threshold (six and seven requests in flight) and no more waiting
  workers than queued requests.
\<close>

definition overloadedCheck :: queryComponentUtilizationReserveConnections where
  "overloadedCheck =
     \<lparr>utilization = \<lparr>targetReservedCapacity = reservedCapacity04,
                      ingesterInflightRequests = 6, storeGatewayInflightRequests = 7\<rparr>,
      connectedWorkers = 10, waitingWorkers = 0, queueLen = 2\<rparr>"

text \<open>The same load seen by a scheduler with a single connected worker.\<close>

definition singleWorkerCheck :: queryComponentUtilizationReserveConnections where
  "singleWorkerCheck = overloadedCheck\<lparr>connectedWorkers := 1\<rparr>"

text \<open>A node without children that holds the given items.\<close>

definition leafNode :: "string \<Rightarrow> 'a list \<Rightarrow> 'a Node" where
  "leafNode nm items = Node nm items [] [] localQueueIndex"

definition twoComponentRoot :: "string Node" where
  "twoComponentRoot =
     Node ''root'' []
       [(''ingester'', leafNode ''ingester'' [''obj-1'']),
        (''store-gateway'', leafNode ''store-gateway'' [''obj-2''])] [] localQueueIndex"

definition midPassState :: queryComponentUtilizationDequeueSkipOverThreshold where
  "midPassState =
     \<lparr>currentNodeOrderIndex = 0, nodeOrder = [''ingester'', ''store-gateway''], nodesChecked = 0,
      nodesSkippedOrder = []\<rparr>"

text \<open>
  The state in which \<^verbatim>\<open>ingester\<close> was skipped in an earlier pass and is now, the load
  having dropped, dequeued from at the head of the rotation.
\<close>

definition staleSkipState :: queryComponentUtilizationDequeueSkipOverThreshold where
  "staleSkipState =
     \<lparr>currentNodeOrderIndex = 0, nodeOrder = [''ingester'', ''store-gateway''], nodesChecked = 1,
      nodesSkippedOrder = [''ingester'']\<rparr>"

text \<open>
  The state after the only node of the rotation was skipped: the cursor is one past the
  end of \<^verbatim>\<open>nodeOrder\<close>.
\<close>

definition afterSkipState :: queryComponentUtilizationDequeueSkipOverThreshold where
  "afterSkipState =
     \<lparr>currentNodeOrderIndex = 1, nodeOrder = [''ingester''], nodesChecked = 1,
      nodesSkippedOrder = [''ingester'']\<rparr>"

definition emptyRoot :: "string Node" where
  "emptyRoot = Node ''root'' [] [] [] localQueueIndex"

text \<open>
  The utilization check of the test: ten connected workers, a reserved capacity of
  \<open>0.4\<close>, one waiting worker, \<^verbatim>\<open>queueLen\<close> at its zero value and nothing in flight.
\<close>

definition testCheck :: queryComponentUtilizationReserveConnections where
  "testCheck =
     \<lparr>utilization = \<lparr>targetReservedCapacity = reservedCapacity04,
                      ingesterInflightRequests = 0, storeGatewayInflightRequests = 0\<rparr>,
      connectedWorkers = 10, waitingWorkers = 1, queueLen = 0\<rparr>"

text \<open>The tree of the test: skip-over at the root, round-robin below.\<close>

definition testTree :: "string Tree" where
  "testTree = NewTree [SkipOverThreshold initialSkipOverState, RoundRobin]"

definition testOperations :: "string treeOperation list" where
  "testOperations =
     [EnqueueOp [''child-1''] ''obj-1'', EnqueueOp [''child-2''] ''obj-2'',
      EnqueueOp [''child-3''] ''obj-3'', EnqueueOp [''child-3''] ''obj-4'',
      EnqueueOp [''child-2''] ''obj-5'', EnqueueOp [''child-1''] ''obj-6'',
      DequeueOp, DequeueOp, DequeueOp, DequeueOp, DequeueOp,
      EnqueueOp [''child-1''] ''obj-7'',
      DequeueOp, DequeueOp, DequeueOp]"




text \<open>Whether a querier is registered and not shutting down.\<close>

definition querierActive :: "('t, 'tn) queueBroker \<Rightarrow> QuerierID \<Rightarrow> bool" where
  "querierActive qb querierID =
     (case queriersByID (assignments qb) querierID of None \<Rightarrow> False | Some q \<Rightarrow> \<not> shuttingDown q)"

text \<open>
  Modelled from the spec: helpers for the concrete runs of the broker. The tenant
  bookkeeping keeps the tenant's shard width; \<^verbatim>\<open>createOrUpdateTenant\<close> "registers a tenant
  if unseen, or updates its shard width if changed". The tree is the tree above with
  round-robin at every level, the rotation shuffle-shard selection follows when every
  tenant is eligible for the querier, and it leaves the shared queue position as it is.
\<close>

definition roundRobinHelpers :: "(tenantRequest Tree, tenantRequest Node, int) brokerHelpers" where
  "roundRobinHelpers =
     \<lparr>opCreateOrUpdateTenant =
        (\<lambda>tqa tid maxQueriers. (None, tqa\<lparr>tenantsByID := (tenantsByID tqa)(tid \<mapsto> maxQueriers)\<rparr>)),
      opRemoveTenant = (\<lambda>tqa tid. tqa\<lparr>tenantsByID := (tenantsByID tqa)(tid := None)\<rparr>),
      treeGetNode = (\<lambda>t path. getNode (rootNode t) path),
      nodeItemCount = (\<lambda>n. int (ItemCount n)),
      treeEnqueueBackByPath =
        (\<lambda>t path r. case EnqueueBackByPath t path r of Inl p \<Rightarrow> Inl p | Inr t' \<Rightarrow> Inr (None, t')),
      treeEnqueueFrontByPath =
        (\<lambda>t path r. case EnqueueFrontByPath t path r of Inl p \<Rightarrow> Inl p | Inr t' \<Rightarrow> Inr (None, t')),
      treeDequeue =
        (\<lambda>qb. case dequeueNode 100 queryComponentFlags testCheck (algosByDepth (queueTree qb)) 0
                     (rootNode (queueTree qb)) of
                None \<Rightarrow> None
              | Some (Inl p) \<Rightarrow> Some (Inl p)
              | Some (Inr (path, v, n, algos)) \<Rightarrow>
                  Some (Inr (path, v, \<lparr>rootNode = n, algosByDepth = algos\<rparr>,
                             sharedQueuePosition (treeShuffleShardState qb))))\<rparr>"

text \<open>A broker with one connected querier, one querier that is shutting down, and nothing
  queued.\<close>

definition emptyBroker :: "int \<Rightarrow> bool \<Rightarrow> (tenantRequest Tree, int) queueBroker" where
  "emptyBroker limit dimensions =
     \<lparr>queueTree = NewTree [RoundRobin, RoundRobin, RoundRobin],
      assignments =
        \<lparr>queriersByID = [''querier-1'' \<mapsto> \<lparr>shuttingDown = False\<rparr>,
                         ''querier-2'' \<mapsto> \<lparr>shuttingDown = True\<rparr>],
         tenantsByID = Map.empty\<rparr>,
      maxTenantQueueSize = limit,
      additionalQueueDimensionsEnabled = dimensions,
      currentQuerier = [],
      treeShuffleShardState = \<lparr>sharedQueuePosition = localQueueIndex\<rparr>\<rparr>"

definition request1 :: tenantRequest where
  "request1 = \<lparr>tenantID = ''tenant-1'', req = FrontendRequest\<rparr>"

definition request2 :: tenantRequest where
  "request2 = \<lparr>tenantID = ''tenant-1'', req = SchedulerRequest [''ingester'']\<rparr>"

text \<open>The tree in which \<^verbatim>\<open>tenant-1\<close> has one queued request.\<close>

definition oneRequestTree :: "tenantRequest Tree" where
  "oneRequestTree =
     \<lparr>rootNode = Node ''root'' [] [(''tenant-1'', Node ''tenant-1'' [request1] [] [] localQueueIndex)]
                  [''tenant-1''] localQueueIndex,
      algosByDepth = [RoundRobin, RoundRobin, RoundRobin]\<rparr>"

definition oneRequestBroker :: "int \<Rightarrow> (tenantRequest Tree, int) queueBroker" where
  "oneRequestBroker limit =
     (emptyBroker limit False)
       \<lparr>queueTree := oneRequestTree,
        assignments := (assignments (emptyBroker limit False))\<lparr>tenantsByID := [''tenant-1'' \<mapsto> 0]\<rparr>\<rparr>"

text \<open>The cursor is at the local-queue sentinel or at a node of the rotation.\<close>

definition cursorValid :: "queryComponentUtilizationDequeueSkipOverThreshold \<Rightarrow> bool" where
  "cursorValid qcud =
     (currentNodeOrderIndex qcud = localQueueIndex
      \<or> (0 \<le> currentNodeOrderIndex qcud
          \<and> currentNodeOrderIndex qcud < int (length (nodeOrder qcud))))"

section \<open>Basic facts\<close>

lemma removeFirstName_remove1: "removeFirstName x xs = remove1 x xs"
  by (induction xs) auto

subsection \<open>float64 operations and the numbers they stand for\<close>

lemma bitLength_num [simp]:
  "bitLength 0 = 0" "bitLength 1 = 1"
  "bitLength (numeral k) = (if (numeral k :: int) \<le> 0 then 0 else Suc (bitLength (numeral k div 2)))"
  by (simp_all add: bitLength.simps)

lemma pow2_nonneg: "0 \<le> k \<Longrightarrow> pow2 k = of_int (2 ^ nat k)"
  by (simp add: pow2_def)

lemma pow2_neg: "k < 0 \<Longrightarrow> pow2 k = 1 / of_int (2 ^ nat (- k))"
  by (simp add: pow2_def)

lemma pow2_pos: "0 < pow2 k"
  by (simp add: pow2_def)

lemma f64_positive_val: "f64_positive x = (0 < f64_val x)"
  using pow2_pos [of "exponent x"]
  by (auto simp: f64_positive_def f64_val_def zero_less_mult_iff)

lemma f64_ceil_int_val: "f64_ceil_int x = \<lceil>f64_val x\<rceil>"
proof (cases "0 \<le> exponent x")
  case True
  then have "f64_val x = of_int (significand x * 2 ^ nat (exponent x))"
    by (simp add: f64_val_def pow2_nonneg)
  then show ?thesis using True
    by (simp add: f64_ceil_int_def del: of_int_mult of_int_power)
next
  case False
  then have v: "f64_val x = of_int (significand x) / of_int (2 ^ nat (- exponent x))"
    by (simp add: f64_val_def pow2_neg)
  have "\<lceil>f64_val x\<rceil> = - \<lfloor>of_int (- significand x) / (of_int (2 ^ nat (- exponent x)) :: rat)\<rfloor>"
    unfolding v ceiling_def by simp
  also have "\<dots> = - ((- significand x) div 2 ^ nat (- exponent x))"
    unfolding floor_divide_of_int_eq ..
  finally show ?thesis using False by (simp add: f64_ceil_int_def)
qed

lemma f64_max_one_val: "f64_val (f64_max_one x) = max (f64_val x) 1"
proof (cases "0 \<le> exponent x")
  case True
  then have v: "f64_val x = of_int (significand x * 2 ^ nat (exponent x))"
    by (simp add: f64_val_def pow2_nonneg)
  have "(f64_val x \<le> 1) = (significand x * 2 ^ nat (exponent x) \<le> 1)"
    unfolding v by (metis of_int_le_1_iff)
  then show ?thesis using True
    by (auto simp: f64_max_one_def f64_val_def pow2_def max_def)
next
  case False
  then have v: "f64_val x = of_int (significand x) / of_int (2 ^ nat (- exponent x))"
    by (simp add: f64_val_def pow2_neg)
  have p: "(0::rat) < of_int (2 ^ nat (- exponent x))"
    by simp
  have "(f64_val x \<le> 1) = (of_int (significand x) \<le> (of_int (2 ^ nat (- exponent x)) :: rat))"
    unfolding v using p by (simp only: divide_le_eq_1_pos)
  also have "\<dots> = (significand x \<le> 2 ^ nat (- exponent x))"
    by (simp only: of_int_le_iff)
  finally have "(f64_val x \<le> 1) = (significand x \<le> 2 ^ nat (- exponent x))" .
  then show ?thesis using False
    by (auto simp: f64_max_one_def f64_val_def pow2_def max_def)
qed

lemma minReservedConnections_val:
  "minReservedConnections qcurc =
     (if 0 < f64_val (targetReservedCapacity (utilization qcurc))
      then \<lceil>max (f64_val (f64_mul (targetReservedCapacity (utilization qcurc))
                                  (f64_of_int (connectedWorkers qcurc)))) 1\<rceil>
      else 0)"
  by (simp add: minReservedConnections_def f64_positive_val f64_ceil_int_val f64_max_one_val)


lemma minReservedConnections_overloadedCheck: "minReservedConnections overloadedCheck = 4"
  by (simp add: minReservedConnections_def overloadedCheck_def reservedCapacity04_def
        f64_positive_def f64_mul_def f64_of_int_def f64_round_def Let_def f64_max_one_def
        f64_ceil_int_def)

text \<open>
  The rounding of the product matters: the number the \<^verbatim>\<open>float64\<close> nearest to \<open>0.4\<close> stands
  for is a little above \<open>0.4\<close>, and ten times it is a little above \<open>4\<close>; the \<^verbatim>\<open>float64\<close>
  product is \<open>4\<close>.
\<close>

lemma exact_product_differs:
  "\<lceil>max (f64_val reservedCapacity04 * 10) 1\<rceil> = 5
   \<and> \<lceil>max (f64_val (f64_mul reservedCapacity04 (f64_of_int 10))) 1\<rceil> = 4"
  by (simp add: f64_val_def reservedCapacity04_def pow2_def f64_mul_def f64_of_int_def f64_round_def
        Let_def ceiling_unique)

lemma overloadedCheck_triggers: "TriggerUtilizationCheck overloadedCheck"
  by (simp add: TriggerUtilizationCheck_def overloadedCheck_def)

lemma overloadedCheck_ingester:
  "ExceedsThresholdForComponentName queryComponentFlags overloadedCheck ''ingester'' = (True, Ingester)"
  by (simp add: ExceedsThresholdForComponentName_def minReservedConnections_overloadedCheck
        queryComponentFlags_def)
     (simp add: overloadedCheck_def)

lemma overloadedCheck_store_gateway:
  "ExceedsThresholdForComponentName queryComponentFlags overloadedCheck ''store-gateway'' =
     (True, StoreGateway)"
  by (simp add: ExceedsThresholdForComponentName_def minReservedConnections_overloadedCheck
        queryComponentFlags_def)
     (simp add: overloadedCheck_def)

lemma IsEmpty_leafNode: "IsEmpty (leafNode nm items) = (items = [])"
  by (simp add: IsEmpty_def leafNode_def)

lemma Name_leafNode: "Name (leafNode nm items) = nm"
  by (simp add: leafNode_def)


subsection \<open>The drain step of the selection\<close>

lemma dequeueSelectNode_drains_skipped:
  assumes "currentNodeOrderIndex qcud \<noteq> localQueueIndex"
    and "nodesChecked qcud = int (length (nodeOrder qcud)) + 1"
    and "nodesSkippedOrder qcud = nm # rest"
  shows "dequeueSelectNode flags chk qcud node =
           Inr (queueMapRef node nm, rest = [], qcud\<lparr>nodesSkippedOrder := rest\<rparr>)"
  using assms by (simp add: dequeueSelectNode_def Let_def checkedAllNodes_def)


section \<open>The reserved-capacity threshold\<close>

text \<open>
  C1. \<^verbatim>\<open>ExceedsThresholdForComponentName\<close> answers false with at most one connected
  worker. With more, it answers true exactly when the name stands for the ingesters and
  \<open>connectedWorkers - ingesterInflightRequests \<le> minReserved\<close>, or the name stands for the
  store-gateways and \<open>connectedWorkers - storeGatewayInflightRequests \<le> minReserved\<close>; for
  a name that stands for neither it answers false. Here \<open>minReserved\<close> is
  \<open>ceil (max (targetReservedCapacity * connectedWorkers) 1)\<close> for a positive target, the
  product and the conversion of the worker count being those of \<^verbatim>\<open>float64\<close>, and \<open>0\<close>
  otherwise.
\<close>

theorem ExceedsThresholdForComponentName_rule:
  "(connectedWorkers qcurc \<le> 1 \<longrightarrow> fst (ExceedsThresholdForComponentName flags qcurc nm) = False)
   \<and> (1 < connectedWorkers qcurc \<longrightarrow>
        fst (ExceedsThresholdForComponentName flags qcurc nm) =
          ((fst (flags nm) \<and> connectedWorkers qcurc - ingesterInflightRequests (utilization qcurc)
                                \<le> minReservedConnections qcurc)
           \<or> (snd (flags nm) \<and> connectedWorkers qcurc - storeGatewayInflightRequests (utilization qcurc)
                                \<le> minReservedConnections qcurc)))
   \<and> (flags nm = (False, False) \<longrightarrow> fst (ExceedsThresholdForComponentName flags qcurc nm) = False)
   \<and> minReservedConnections qcurc =
       (if 0 < f64_val (targetReservedCapacity (utilization qcurc))
        then \<lceil>max (f64_val (f64_mul (targetReservedCapacity (utilization qcurc))
                                    (f64_of_int (connectedWorkers qcurc)))) 1\<rceil>
        else 0)"
proof -
  have a: "connectedWorkers qcurc \<le> 1 \<longrightarrow> fst (ExceedsThresholdForComponentName flags qcurc nm) = False"
    by (simp add: ExceedsThresholdForComponentName_def)
  have b: "1 < connectedWorkers qcurc \<longrightarrow>
        fst (ExceedsThresholdForComponentName flags qcurc nm) =
          ((fst (flags nm) \<and> connectedWorkers qcurc - ingesterInflightRequests (utilization qcurc)
                                \<le> minReservedConnections qcurc)
           \<or> (snd (flags nm) \<and> connectedWorkers qcurc - storeGatewayInflightRequests (utilization qcurc)
                                \<le> minReservedConnections qcurc))"
    by (cases "flags nm") (auto simp: ExceedsThresholdForComponentName_def)
  have c: "flags nm = (False, False) \<longrightarrow> fst (ExceedsThresholdForComponentName flags qcurc nm) = False"
    by (simp add: ExceedsThresholdForComponentName_def)
  from a b c minReservedConnections_val [of qcurc] show ?thesis by blast
qed


theorem ExceedsThresholdForComponentName_rule_witness:
  "connectedWorkers singleWorkerCheck \<le> 1
   \<and> fst (ExceedsThresholdForComponentName queryComponentFlags singleWorkerCheck ''ingester'') = False
   \<and> 1 < connectedWorkers overloadedCheck
   \<and> fst (ExceedsThresholdForComponentName queryComponentFlags overloadedCheck ''ingester'') = True
   \<and> queryComponentFlags ''ruler'' = (False, False)
   \<and> fst (ExceedsThresholdForComponentName queryComponentFlags overloadedCheck ''ruler'') = False
   \<and> minReservedConnections overloadedCheck = 4"
proof -
  have one: "connectedWorkers singleWorkerCheck \<le> 1"
    by (simp add: singleWorkerCheck_def)
  have ten: "1 < connectedWorkers overloadedCheck"
    by (simp add: overloadedCheck_def)
  have neither: "queryComponentFlags ''ruler'' = (False, False)"
    by (simp add: queryComponentFlags_def)
  have a: "fst (ExceedsThresholdForComponentName queryComponentFlags singleWorkerCheck ''ingester'') = False"
    using ExceedsThresholdForComponentName_rule [of singleWorkerCheck queryComponentFlags "''ingester''"] one
    by blast
  have "fst (ExceedsThresholdForComponentName queryComponentFlags overloadedCheck ''ingester'') =
          ((fst (queryComponentFlags ''ingester'')
              \<and> connectedWorkers overloadedCheck - ingesterInflightRequests (utilization overloadedCheck)
                  \<le> minReservedConnections overloadedCheck)
           \<or> (snd (queryComponentFlags ''ingester'')
              \<and> connectedWorkers overloadedCheck - storeGatewayInflightRequests (utilization overloadedCheck)
                  \<le> minReservedConnections overloadedCheck))"
    using ExceedsThresholdForComponentName_rule [of overloadedCheck queryComponentFlags "''ingester''"] ten
    by blast
  then have b: "fst (ExceedsThresholdForComponentName queryComponentFlags overloadedCheck ''ingester'') = True"
    by (simp add: minReservedConnections_overloadedCheck queryComponentFlags_def)
       (simp add: overloadedCheck_def)
  have c: "fst (ExceedsThresholdForComponentName queryComponentFlags overloadedCheck ''ruler'') = False"
    using ExceedsThresholdForComponentName_rule [of overloadedCheck queryComponentFlags "''ruler''"] neither
    by blast
  from one ten neither a b c minReservedConnections_overloadedCheck show ?thesis
    by blast
qed

section \<open>Selecting a node during the first rotation pass\<close>

text \<open>
  The selection rule inside the rotation. While the first pass is incomplete
  (\<open>nodesChecked < len(nodeOrder) + 1\<close>) and the cursor is at a node of the rotation
  (\<open>0 \<le> index < len(nodeOrder)\<close>), \<^verbatim>\<open>dequeueSelectNode\<close> skips the current node exactly when the
  utilization check is triggered (\<open>waitingWorkers \<le> queueLen\<close>) and the node's component
  exceeds the threshold: it returns no node, appends the name to the skipped list,
  advances the cursor and counts the node as checked. In every other case it selects the
  current node and counts it as checked, leaving cursor and skipped list as they were.
\<close>

theorem dequeueSelectNode_first_pass:
  assumes "currentNodeOrderIndex qcud \<noteq> localQueueIndex"
    and "nodesChecked qcud < int (length (nodeOrder qcud)) + 1"
    and "0 \<le> currentNodeOrderIndex qcud"
    and "currentNodeOrderIndex qcud < int (length (nodeOrder qcud))"
  shows "dequeueSelectNode flags chk qcud node =
     (let nm = nodeOrder qcud ! nat (currentNodeOrderIndex qcud) in
      if waitingWorkers chk \<le> queueLen chk \<and> fst (ExceedsThresholdForComponentName flags chk nm)
      then Inr (NilNode, False,
                qcud\<lparr>nodesSkippedOrder := nodesSkippedOrder qcud @ [nm],
                     currentNodeOrderIndex := currentNodeOrderIndex qcud + 1,
                     nodesChecked := nodesChecked qcud + 1\<rparr>)
      else Inr (queueMapRef node nm,
                checkedAllNodes (qcud\<lparr>nodesChecked := nodesChecked qcud + 1\<rparr>),
                qcud\<lparr>nodesChecked := nodesChecked qcud + 1\<rparr>))"
  using assms
  by (auto simp: dequeueSelectNode_def Let_def TriggerUtilizationCheck_def checkedAllNodes_def)


theorem dequeueSelectNode_first_pass_witness:
  "currentNodeOrderIndex midPassState \<noteq> localQueueIndex
   \<and> nodesChecked midPassState < int (length (nodeOrder midPassState)) + 1
   \<and> 0 \<le> currentNodeOrderIndex midPassState
   \<and> currentNodeOrderIndex midPassState < int (length (nodeOrder midPassState))
   \<and> dequeueSelectNode queryComponentFlags overloadedCheck midPassState twoComponentRoot =
       Inr (NilNode, False,
            \<lparr>currentNodeOrderIndex = 1, nodeOrder = [''ingester'', ''store-gateway''],
             nodesChecked = 1, nodesSkippedOrder = [''ingester'']\<rparr>)
   \<and> dequeueSelectNode queryComponentFlags (overloadedCheck\<lparr>waitingWorkers := 3\<rparr>) midPassState
         twoComponentRoot =
       Inr (ChildNode (leafNode ''ingester'' [''obj-1'']), False,
            \<lparr>currentNodeOrderIndex = 0, nodeOrder = [''ingester'', ''store-gateway''],
             nodesChecked = 1, nodesSkippedOrder = []\<rparr>)"
proof -
  have h1: "currentNodeOrderIndex midPassState \<noteq> localQueueIndex"
    by (simp add: midPassState_def localQueueIndex_def)
  have h2: "nodesChecked midPassState < int (length (nodeOrder midPassState)) + 1"
    by (simp add: midPassState_def)
  have h3: "0 \<le> currentNodeOrderIndex midPassState"
    by (simp add: midPassState_def)
  have h4: "currentNodeOrderIndex midPassState < int (length (nodeOrder midPassState))"
    by (simp add: midPassState_def)
  have over: "fst (ExceedsThresholdForComponentName queryComponentFlags overloadedCheck ''ingester'')"
    by (simp add: ExceedsThresholdForComponentName_def minReservedConnections_overloadedCheck
          queryComponentFlags_def)
       (simp add: overloadedCheck_def)
  have cur: "nodeOrder midPassState ! nat (currentNodeOrderIndex midPassState) = ''ingester''"
    by (simp add: midPassState_def)
  have trig: "waitingWorkers overloadedCheck \<le> queueLen overloadedCheck"
    by (simp add: overloadedCheck_def)
  have "dequeueSelectNode queryComponentFlags overloadedCheck midPassState twoComponentRoot =
       Inr (NilNode, False,
            midPassState\<lparr>nodesSkippedOrder := nodesSkippedOrder midPassState @ [''ingester''],
                          currentNodeOrderIndex := currentNodeOrderIndex midPassState + 1,
                          nodesChecked := nodesChecked midPassState + 1\<rparr>)"
    using dequeueSelectNode_first_pass [OF h1 h2 h3 h4, of queryComponentFlags overloadedCheck twoComponentRoot]
      over trig cur
    by (simp add: Let_def)
  then have skip: "dequeueSelectNode queryComponentFlags overloadedCheck midPassState twoComponentRoot =
       Inr (NilNode, False,
            \<lparr>currentNodeOrderIndex = 1, nodeOrder = [''ingester'', ''store-gateway''],
             nodesChecked = 1, nodesSkippedOrder = [''ingester'']\<rparr>)"
    by (simp add: midPassState_def)
  have slack: "\<not> waitingWorkers (overloadedCheck\<lparr>waitingWorkers := 3\<rparr>)
                   \<le> queueLen (overloadedCheck\<lparr>waitingWorkers := 3\<rparr>)"
    by (simp add: overloadedCheck_def)
  have "dequeueSelectNode queryComponentFlags (overloadedCheck\<lparr>waitingWorkers := 3\<rparr>) midPassState
         twoComponentRoot =
       Inr (queueMapRef twoComponentRoot ''ingester'',
            checkedAllNodes (midPassState\<lparr>nodesChecked := nodesChecked midPassState + 1\<rparr>),
            midPassState\<lparr>nodesChecked := nodesChecked midPassState + 1\<rparr>)"
    using dequeueSelectNode_first_pass [OF h1 h2 h3 h4, of queryComponentFlags
        "overloadedCheck\<lparr>waitingWorkers := 3\<rparr>" twoComponentRoot] slack cur
    by (simp add: Let_def)
  then have pick: "dequeueSelectNode queryComponentFlags (overloadedCheck\<lparr>waitingWorkers := 3\<rparr>)
         midPassState twoComponentRoot =
       Inr (ChildNode (leafNode ''ingester'' [''obj-1'']), False,
            \<lparr>currentNodeOrderIndex = 0, nodeOrder = [''ingester'', ''store-gateway''],
             nodesChecked = 1, nodesSkippedOrder = []\<rparr>)"
    by (simp add: midPassState_def queueMapRef_def twoComponentRoot_def checkedAllNodes_def)
  from h1 h2 h3 h4 skip pick show ?thesis
    by blast
qed

text \<open>
  C2 at a concrete input. The rule is to hold whenever the first pass is incomplete and
  the cursor is not at the sentinel. After the only node of the rotation was skipped both
  hold, and the call neither skips nor selects: the skip branch has left the cursor one
  past the end of \<^verbatim>\<open>nodeOrder\<close> without wrapping it, and the index expression panics.
\<close>

theorem dequeueSelectNode_first_pass_cursor_past_end:
  "currentNodeOrderIndex afterSkipState \<noteq> localQueueIndex
   \<and> nodesChecked afterSkipState < int (length (nodeOrder afterSkipState)) + 1
   \<and> dequeueSelectNode queryComponentFlags overloadedCheck afterSkipState twoComponentRoot =
       Inl IndexOutOfRange"
  by (simp add: dequeueSelectNode_def afterSkipState_def localQueueIndex_def)

section \<open>Updating the rotation after a dequeue\<close>

text \<open>
  C5, as amended. After a dequeue from a child, \<^verbatim>\<open>dequeueUpdateState\<close> does one of two
  things. If the child is now empty, it deletes the child from the parent's map and
  cuts the first occurrence of its name out of \<^verbatim>\<open>nodeOrder\<close>, and the cursor is not
  advanced. Otherwise the cursor advances by one. In both cases a cursor at or past
  \<open>len(nodeOrder)\<close> wraps to the local-queue sentinel and the nodes-checked counter is
  reset to \<open>0\<close>. The skipped list is left as it is: an entry for the emptied child stays.
  After a dequeue from the node's own local queue the cursor advances in the same way.
\<close>

theorem dequeueUpdateState_child:
  "dequeueUpdateState qcud node (ChildNode c) =
     (let ord' = (if IsEmpty c then remove1 (Name c) (nodeOrder qcud) else nodeOrder qcud);
          i' = (if IsEmpty c then currentNodeOrderIndex qcud else currentNodeOrderIndex qcud + 1)
      in (qcud\<lparr>nodeOrder := ord',
                currentNodeOrderIndex := (if int (length ord') \<le> i' then localQueueIndex else i'),
                nodesChecked := 0\<rparr>,
          if IsEmpty c then set_queueMap (AList.delete (Name c) (queueMap node)) node else node))
   \<and> dequeueUpdateState qcud node SelfNode =
       (qcud\<lparr>currentNodeOrderIndex :=
                (if int (length (nodeOrder qcud)) \<le> currentNodeOrderIndex qcud + 1
                 then localQueueIndex else currentNodeOrderIndex qcud + 1),
              nodesChecked := 0\<rparr>, node)"
  by (simp add: dequeueUpdateState_def Let_def removeFirstName_remove1)

text \<open>
  C5, as stated, asks that a stale entry for the emptied child is pruned from the
  skipped list. Here \<^verbatim>\<open>ingester\<close> is emptied and deleted while the skipped list still
  names it, and the list names it afterwards.
\<close>

theorem dequeueUpdateState_keeps_skipped_entry:
  "IsEmpty (leafNode ''ingester'' ([] :: string list))
   \<and> ''ingester'' \<in> set (nodesSkippedOrder staleSkipState)
   \<and> dequeueUpdateState staleSkipState twoComponentRoot (ChildNode (leafNode ''ingester'' [])) =
       (\<lparr>currentNodeOrderIndex = 0, nodeOrder = [''store-gateway''], nodesChecked = 0,
         nodesSkippedOrder = [''ingester'']\<rparr>,
        Node ''root'' [] [(''store-gateway'', leafNode ''store-gateway'' [''obj-2''])] []
          localQueueIndex)
   \<and> ''ingester'' \<in> set (nodesSkippedOrder
         (fst (dequeueUpdateState staleSkipState twoComponentRoot (ChildNode (leafNode ''ingester'' [])))))"
  by (simp add: dequeueUpdateState_def IsEmpty_leafNode Name_leafNode staleSkipState_def
        twoComponentRoot_def set_queueMap_def localQueueIndex_def)

section \<open>Registering a new child\<close>





section \<open>Skipped nodes and the cursor\<close>

text \<open>
  C3 at a concrete input. Both siblings of the rotation are over the threshold and the
  utilization check is triggered. The first two selections skip \<^verbatim>\<open>ingester\<close> and
  \<^verbatim>\<open>store-gateway\<close> and return no node; the skip branch has advanced the cursor to
  \<open>len(nodeOrder)\<close> without wrapping it, and \<open>nodesChecked\<close> is \<open>2\<close>, not \<open>3\<close>, so the third
  selection indexes \<^verbatim>\<open>nodeOrder\<close> out of range instead of draining the skipped list.
\<close>

theorem overloaded_siblings_not_drained:
  "dequeueSelectNode queryComponentFlags overloadedCheck midPassState twoComponentRoot =
     Inr (NilNode, False,
          \<lparr>currentNodeOrderIndex = 1, nodeOrder = [''ingester'', ''store-gateway''],
           nodesChecked = 1, nodesSkippedOrder = [''ingester'']\<rparr>)
   \<and> dequeueSelectNode queryComponentFlags overloadedCheck
        \<lparr>currentNodeOrderIndex = 1, nodeOrder = [''ingester'', ''store-gateway''],
         nodesChecked = 1, nodesSkippedOrder = [''ingester'']\<rparr> twoComponentRoot =
     Inr (NilNode, False,
          \<lparr>currentNodeOrderIndex = 2, nodeOrder = [''ingester'', ''store-gateway''],
           nodesChecked = 2, nodesSkippedOrder = [''ingester'', ''store-gateway'']\<rparr>)
   \<and> dequeueSelectNode queryComponentFlags overloadedCheck
        \<lparr>currentNodeOrderIndex = 2, nodeOrder = [''ingester'', ''store-gateway''],
         nodesChecked = 2, nodesSkippedOrder = [''ingester'', ''store-gateway'']\<rparr> twoComponentRoot =
     Inl IndexOutOfRange"
  by (simp add: dequeueSelectNode_def Let_def midPassState_def localQueueIndex_def
        overloadedCheck_triggers overloadedCheck_ingester overloadedCheck_store_gateway
        checkedAllNodes_def)

text \<open>
  C10 at a concrete input. From the initial state: register \<^verbatim>\<open>ingester\<close>, select (the
  local queue), update for the local queue (the cursor moves to \<open>0\<close>), select (the node
  is over the threshold and is skipped, the cursor moves to \<open>1 = len(nodeOrder)\<close>), select
  again: \<^verbatim>\<open>nodeOrder[1]\<close> is read out of range.
\<close>

theorem cursor_out_of_range_after_skip:
  "runOperations queryComponentFlags overloadedCheck (initialSkipOverState, emptyRoot)
     [AddChild (leafNode ''ingester'' [''obj-1'']), Select, Update SelfNode, Select] =
     Inr (\<lparr>currentNodeOrderIndex = 1, nodeOrder = [''ingester''], nodesChecked = 1,
           nodesSkippedOrder = [''ingester'']\<rparr>,
          Node ''root'' [] [(''ingester'', leafNode ''ingester'' [''obj-1''])] [] localQueueIndex)
   \<and> runOperations queryComponentFlags overloadedCheck (initialSkipOverState, emptyRoot)
     [AddChild (leafNode ''ingester'' [''obj-1'']), Select, Update SelfNode, Select, Select] =
     Inl IndexOutOfRange"
  by (simp add: applyOperation_def addChildNode_def dequeueSelectNode_def dequeueUpdateState_def
        Let_def initialSkipOverState_def emptyRoot_def localQueueIndex_def set_queueMap_def
        Name_leafNode overloadedCheck_triggers overloadedCheck_ingester checkedAllNodes_def)

subsection \<open>Where the cursor leaves the rotation\<close>

text \<open>
  Whenever the node at the last index is skipped before the pass has counted every
  node, the cursor is left at \<open>len(nodeOrder)\<close> and the next selection reads out of
  range; the name just skipped stays in the skipped list.
\<close>

lemma skip_at_last_index_then_out_of_range:
  assumes "nodeOrder qcud \<noteq> []"
    and "currentNodeOrderIndex qcud = int (length (nodeOrder qcud)) - 1"
    and "nodesChecked qcud < int (length (nodeOrder qcud))"
    and "TriggerUtilizationCheck chk"
    and "fst (ExceedsThresholdForComponentName flags chk (last (nodeOrder qcud)))"
  shows "\<exists>qcud'. dequeueSelectNode flags chk qcud node = Inr (NilNode, False, qcud')
           \<and> nodesSkippedOrder qcud' = nodesSkippedOrder qcud @ [last (nodeOrder qcud)]
           \<and> dequeueSelectNode flags chk qcud' node = Inl IndexOutOfRange"
proof -
  have n: "nat (int (length (nodeOrder qcud)) - 1) = length (nodeOrder qcud) - 1"
    by simp
  have l: "nodeOrder qcud ! (length (nodeOrder qcud) - 1) = last (nodeOrder qcud)"
    using assms(1) by (simp add: last_conv_nth)
  show ?thesis
    using assms n l
    by (simp add: dequeueSelectNode_def Let_def localQueueIndex_def checkedAllNodes_def)
qed


text \<open>
  The skip branch is the only way out of the rotation: a cursor that is at the sentinel
  or at a node stays so under \<^verbatim>\<open>addChildNode\<close> and \<^verbatim>\<open>dequeueUpdateState\<close>, and under
  \<^verbatim>\<open>dequeueSelectNode\<close> as long as the utilization check is not triggered. So without
  a triggered check no sequence of operations reads \<^verbatim>\<open>nodeOrder\<close> out of range.
\<close>

lemma addChildNode_cursorValid:
  assumes "cursorValid qcud" and "addChildNode qcud parent child = Inr (qcud', parent')"
  shows "cursorValid qcud'"
  using assms
  by (auto simp: cursorValid_def addChildNode_def Let_def localQueueIndex_def split: if_splits)

lemma dequeueUpdateState_cursorValid:
  assumes "cursorValid qcud"
  shows "cursorValid (fst (dequeueUpdateState qcud node r))"
  using assms
  by (cases r)
     (auto simp: cursorValid_def dequeueUpdateState_def Let_def localQueueIndex_def split: if_splits)

lemma dequeueSelectNode_cursorValid:
  assumes "cursorValid qcud" and "\<not> TriggerUtilizationCheck chk"
  shows "\<exists>r d qcud'. dequeueSelectNode flags chk qcud node = Inr (r, d, qcud') \<and> cursorValid qcud'"
  using assms
  by (auto simp: cursorValid_def dequeueSelectNode_def Let_def localQueueIndex_def split: list.splits)

lemma runOperations_in_bounds:
  assumes "\<not> TriggerUtilizationCheck chk" and "cursorValid (fst st)"
  shows "runOperations flags chk st ops \<noteq> Inl IndexOutOfRange"
  using assms(2)
proof (induction ops arbitrary: st)
  case Nil
  then show ?case by simp
next
  case (Cons oper rest)
  show ?case
  proof (cases oper)
    case (AddChild c)
    show ?thesis
    proof (cases "addChildNode (fst st) (snd st) c")
      case (Inl p)
      then have "p = SliceBoundsOutOfRange"
        by (auto simp: addChildNode_def Let_def split: if_splits)
      with Inl AddChild show ?thesis
        by (simp add: applyOperation_def)
    next
      case (Inr st')
      then have "cursorValid (fst st')"
        using addChildNode_cursorValid [OF Cons.prems, of "snd st" c "fst st'" "snd st'"] by simp
      with Inr AddChild Cons.IH [of st'] show ?thesis
        by (simp add: applyOperation_def)
    qed
  next
    case Select
    obtain r d q where s: "dequeueSelectNode flags chk (fst st) (snd st) = Inr (r, d, q)"
      and v: "cursorValid q"
      using dequeueSelectNode_cursorValid [OF Cons.prems assms(1)] by blast
    with Select Cons.IH [of "(q, snd st)"] show ?thesis
      by (simp add: applyOperation_def)
  next
    case (Update r)
    have "cursorValid (fst (dequeueUpdateState (fst st) (snd st) r))"
      using dequeueUpdateState_cursorValid [OF Cons.prems] .
    with Update Cons.IH [of "dequeueUpdateState (fst st) (snd st) r"] show ?thesis
      by (simp add: applyOperation_def)
  qed
qed

section \<open>The test scenario on the tree\<close>

text \<open>
  C4. On an empty tree with the skip-over algorithm at the root, ten connected workers,
  a reserved capacity of \<open>0.4\<close>, one waiting worker and nothing in flight: enqueue
  \<^verbatim>\<open>obj-1\<close> .. \<^verbatim>\<open>obj-6\<close> to \<^verbatim>\<open>child-1\<close>, \<^verbatim>\<open>child-2\<close>, \<^verbatim>\<open>child-3\<close>, \<^verbatim>\<open>child-3\<close>, \<^verbatim>\<open>child-2\<close>,
  \<^verbatim>\<open>child-1\<close>; five dequeues return \<^verbatim>\<open>obj-1\<close>, \<^verbatim>\<open>obj-2\<close>, \<^verbatim>\<open>obj-3\<close>, \<^verbatim>\<open>obj-6\<close>, \<^verbatim>\<open>obj-5\<close> with
  their paths; after enqueueing \<^verbatim>\<open>obj-7\<close> to \<^verbatim>\<open>child-1\<close>, two dequeues return \<^verbatim>\<open>obj-4\<close> from
  \<^verbatim>\<open>child-3\<close> and \<^verbatim>\<open>obj-7\<close> from \<^verbatim>\<open>child-1\<close>, and a last dequeue returns the empty path and
  no item. Every dequeue returns within ten units of fuel.
\<close>

theorem test_scenario_dequeue_order:
  "runTreeOperations 10 queryComponentFlags testCheck testTree testOperations =
     Some (Inr [([''child-1''], Some ''obj-1''), ([''child-2''], Some ''obj-2''),
                ([''child-3''], Some ''obj-3''), ([''child-1''], Some ''obj-6''),
                ([''child-2''], Some ''obj-5''), ([''child-3''], Some ''obj-4''),
                ([''child-1''], Some ''obj-7''), ([], None)])"
  by code_simp

section \<open>The per-tenant backlog limit\<close>

lemmas tree_enqueue_defs =
  EnqueueBackByPath_def EnqueueFrontByPath_def NewTree_def newNode_def algo_addChildNode_def
  rr_addChildNode_def set_queueMap_def set_rotation_def set_localQueue_def

text \<open>
  C7, as amended. Once \<^verbatim>\<open>createOrUpdateTenant\<close> has returned no error and the queue path
  is computed: if the tenant's queue node exists and its item count plus one exceeds
  \<^verbatim>\<open>maxTenantQueueSize\<close>, \<^verbatim>\<open>enqueueRequestBack\<close> returns \<^verbatim>\<open>ErrTooManyRequests\<close> and the tree
  is the one before the call; if the node does not exist, or its item count plus one is
  within the limit, it returns what the tree's enqueue at the back returns for that
  path. \<^verbatim>\<open>enqueueRequestFront\<close> computes the same path, makes no backlog check and
  returns what the tree's enqueue at the front returns.
\<close>

theorem enqueueRequestBack_backlog_limit:
  assumes "opCreateOrUpdateTenant h (assignments qb) (tenantID request) tenantMaxQueriers = (None, tqa)"
    and "makeQueuePath (qb\<lparr>assignments := tqa\<rparr>) request = Inr queuePath"
  shows "(\<forall>n. treeGetNode h (queueTree qb) (take 1 queuePath) = Some n
              \<and> nodeItemCount h n + 1 > maxTenantQueueSize qb \<longrightarrow>
            enqueueRequestBack h qb request tenantMaxQueriers =
              Inr (Some ErrTooManyRequests, qb\<lparr>assignments := tqa\<rparr>))
       \<and> ((treeGetNode h (queueTree qb) (take 1 queuePath) = None
            \<or> (\<exists>n. treeGetNode h (queueTree qb) (take 1 queuePath) = Some n
                    \<and> nodeItemCount h n + 1 \<le> maxTenantQueueSize qb)) \<longrightarrow>
            enqueueRequestBack h qb request tenantMaxQueriers =
              (case treeEnqueueBackByPath h (queueTree qb) queuePath request of
                 Inl p \<Rightarrow> Inl p
               | Inr (err, t) \<Rightarrow> Inr (err, qb\<lparr>assignments := tqa, queueTree := t\<rparr>)))
       \<and> enqueueRequestFront h qb request tenantMaxQueriers =
              (case treeEnqueueFrontByPath h (queueTree qb) queuePath request of
                 Inl p \<Rightarrow> Inl p
               | Inr (err, t) \<Rightarrow> Inr (err, qb\<lparr>assignments := tqa, queueTree := t\<rparr>))"
  using assms
  by (auto simp: enqueueRequestBack_def enqueueRequestFront_def makeQueuePath_def
           split: sum.splits prod.splits)

theorem enqueueRequestBack_backlog_limit_witness:
  "opCreateOrUpdateTenant roundRobinHelpers (assignments (oneRequestBroker 1)) (tenantID request2) 0 =
     (None, assignments (oneRequestBroker 1))
   \<and> makeQueuePath (oneRequestBroker 1) request2 = Inr [''tenant-1'']
   \<and> treeGetNode roundRobinHelpers (queueTree (oneRequestBroker 1)) (take 1 [''tenant-1'']) =
       Some (Node ''tenant-1'' [request1] [] [] localQueueIndex)
   \<and> nodeItemCount roundRobinHelpers (Node ''tenant-1'' [request1] [] [] localQueueIndex) + 1
       > maxTenantQueueSize (oneRequestBroker 1)
   \<and> enqueueRequestBack roundRobinHelpers (oneRequestBroker 1) request2 0 =
       Inr (Some ErrTooManyRequests, oneRequestBroker 1)
   \<and> nodeItemCount roundRobinHelpers (Node ''tenant-1'' [request1] [] [] localQueueIndex) + 1
       \<le> maxTenantQueueSize (oneRequestBroker 2)
   \<and> enqueueRequestBack roundRobinHelpers (oneRequestBroker 2) request2 0 =
       Inr (None, (oneRequestBroker 2)
              \<lparr>queueTree :=
                 \<lparr>rootNode =
                    Node ''root'' []
                      [(''tenant-1'', Node ''tenant-1'' [request1, request2] [] [] localQueueIndex)]
                      [''tenant-1''] localQueueIndex,
                  algosByDepth = [RoundRobin, RoundRobin, RoundRobin]\<rparr>\<rparr>)
   \<and> enqueueRequestFront roundRobinHelpers (oneRequestBroker 1) request2 0 =
       Inr (None, (oneRequestBroker 1)
              \<lparr>queueTree :=
                 \<lparr>rootNode =
                    Node ''root'' []
                      [(''tenant-1'', Node ''tenant-1'' [request2, request1] [] [] localQueueIndex)]
                      [''tenant-1''] localQueueIndex,
                  algosByDepth = [RoundRobin, RoundRobin, RoundRobin]\<rparr>\<rparr>)"
proof -
  have same: "(oneRequestBroker l)\<lparr>assignments := assignments (oneRequestBroker l)\<rparr> = oneRequestBroker l"
    for l
    by simp
  have c: "opCreateOrUpdateTenant roundRobinHelpers (assignments (oneRequestBroker l)) (tenantID request2) 0
             = (None, assignments (oneRequestBroker l))" for l
    by (simp add: roundRobinHelpers_def emptyBroker_def request1_def request2_def
          makeQueuePath_def oneRequestBroker_def oneRequestTree_def tree_enqueue_defs)
  have p: "makeQueuePath ((oneRequestBroker l)\<lparr>assignments := assignments (oneRequestBroker l)\<rparr>) request2
             = Inr [''tenant-1'']" for l
    by (simp add: roundRobinHelpers_def emptyBroker_def request1_def request2_def
          makeQueuePath_def oneRequestBroker_def oneRequestTree_def tree_enqueue_defs)
  have g: "treeGetNode roundRobinHelpers (queueTree (oneRequestBroker l)) (take 1 [''tenant-1'']) =
             Some (Node ''tenant-1'' [request1] [] [] localQueueIndex)" for l
    by (simp add: roundRobinHelpers_def emptyBroker_def request1_def request2_def
          makeQueuePath_def oneRequestBroker_def oneRequestTree_def tree_enqueue_defs)
  have over: "nodeItemCount roundRobinHelpers (Node ''tenant-1'' [request1] [] [] localQueueIndex) + 1
                > maxTenantQueueSize (oneRequestBroker 1)"
    by (simp add: roundRobinHelpers_def emptyBroker_def request1_def request2_def
          makeQueuePath_def oneRequestBroker_def oneRequestTree_def tree_enqueue_defs)
  have within: "nodeItemCount roundRobinHelpers (Node ''tenant-1'' [request1] [] [] localQueueIndex) + 1
                \<le> maxTenantQueueSize (oneRequestBroker 2)"
    by (simp add: roundRobinHelpers_def emptyBroker_def request1_def request2_def
          makeQueuePath_def oneRequestBroker_def oneRequestTree_def tree_enqueue_defs)
  note at1 = enqueueRequestBack_backlog_limit [OF c p, of 1]
  note at2 = enqueueRequestBack_backlog_limit [OF c p, of 2]
  have r1: "enqueueRequestBack roundRobinHelpers (oneRequestBroker 1) request2 0 =
              Inr (Some ErrTooManyRequests, oneRequestBroker 1)"
    using at1 g over same by metis
  have "enqueueRequestBack roundRobinHelpers (oneRequestBroker 2) request2 0 =
          (case treeEnqueueBackByPath roundRobinHelpers (queueTree (oneRequestBroker 2)) [''tenant-1'']
                  request2 of
             Inl p \<Rightarrow> Inl p
           | Inr (err, t) \<Rightarrow>
               Inr (err, (oneRequestBroker 2)\<lparr>assignments := assignments (oneRequestBroker 2),
                                              queueTree := t\<rparr>))"
    using at2 g within by blast
  then have r2: "enqueueRequestBack roundRobinHelpers (oneRequestBroker 2) request2 0 =
       Inr (None, (oneRequestBroker 2)
              \<lparr>queueTree :=
                 \<lparr>rootNode =
                    Node ''root'' []
                      [(''tenant-1'', Node ''tenant-1'' [request1, request2] [] [] localQueueIndex)]
                      [''tenant-1''] localQueueIndex,
                  algosByDepth = [RoundRobin, RoundRobin, RoundRobin]\<rparr>\<rparr>)"
    by (simp add: roundRobinHelpers_def emptyBroker_def request1_def request2_def
          makeQueuePath_def oneRequestBroker_def oneRequestTree_def tree_enqueue_defs)
  have "enqueueRequestFront roundRobinHelpers (oneRequestBroker 1) request2 0 =
          (case treeEnqueueFrontByPath roundRobinHelpers (queueTree (oneRequestBroker 1)) [''tenant-1'']
                  request2 of
             Inl p \<Rightarrow> Inl p
           | Inr (err, t) \<Rightarrow>
               Inr (err, (oneRequestBroker 1)\<lparr>assignments := assignments (oneRequestBroker 1),
                                              queueTree := t\<rparr>))"
    using at1 by blast
  then have r3: "enqueueRequestFront roundRobinHelpers (oneRequestBroker 1) request2 0 =
       Inr (None, (oneRequestBroker 1)
              \<lparr>queueTree :=
                 \<lparr>rootNode =
                    Node ''root'' []
                      [(''tenant-1'', Node ''tenant-1'' [request2, request1] [] [] localQueueIndex)]
                      [''tenant-1''] localQueueIndex,
                  algosByDepth = [RoundRobin, RoundRobin, RoundRobin]\<rparr>\<rparr>)"
    by (simp add: roundRobinHelpers_def emptyBroker_def request1_def request2_def
          makeQueuePath_def oneRequestBroker_def oneRequestTree_def tree_enqueue_defs)
  from c [of 1] p [of 1] g [of 1] over r1 within r2 r3 show ?thesis
    unfolding same by blast
qed

text \<open>
  C7, as stated, asks for \<^verbatim>\<open>ErrTooManyRequests\<close> and an unchanged queue whenever the
  tenant's item count plus one exceeds the limit. With a limit of \<open>0\<close> and nothing queued,
  the count is \<open>0\<close> and \<open>0 + 1 > 0\<close>, yet the call returns no error and the tree holds the
  request: the tenant has no queue node, so the check is not made.
\<close>

theorem enqueueRequestBack_unseen_tenant_over_limit:
  "ItemCount (rootNode (queueTree (emptyBroker 0 False))) = 0
   \<and> (0 :: int) + 1 > maxTenantQueueSize (emptyBroker 0 False)
   \<and> enqueueRequestBack roundRobinHelpers (emptyBroker 0 False) request1 0 =
       Inr (None, oneRequestBroker 0)
   \<and> ItemCount (rootNode (queueTree (oneRequestBroker 0))) = 1"
  by (simp add: enqueueRequestBack_def roundRobinHelpers_def emptyBroker_def request1_def request2_def
          makeQueuePath_def oneRequestBroker_def oneRequestTree_def tree_enqueue_defs)

text \<open>
  When \<^verbatim>\<open>createOrUpdateTenant\<close> returns an error, both enqueue functions return that error
  and leave the tree as it was.
\<close>

lemma enqueueRequest_createOrUpdateTenant_error:
  assumes "opCreateOrUpdateTenant h (assignments qb) (tenantID request) tenantMaxQueriers = (Some err, tqa)"
  shows "enqueueRequestBack h qb request tenantMaxQueriers = Inr (Some err, qb\<lparr>assignments := tqa\<rparr>)"
    and "enqueueRequestFront h qb request tenantMaxQueriers = Inr (Some err, qb\<lparr>assignments := tqa\<rparr>)"
  using assms by (simp_all add: enqueueRequestBack_def enqueueRequestFront_def)

text \<open>
  C9. When the tenant has no queue node in the tree (a tenant not seen before, or one
  whose node was pruned), \<^verbatim>\<open>enqueueRequestBack\<close> makes no backlog check: whatever
  \<^verbatim>\<open>maxTenantQueueSize\<close> is, \<open>0\<close> included, it returns what the tree's enqueue at the back
  returns, and so succeeds whenever that enqueue does.
\<close>

theorem enqueueRequestBack_no_node_no_limit:
  assumes "opCreateOrUpdateTenant h (assignments qb) (tenantID request) tenantMaxQueriers = (None, tqa)"
    and "makeQueuePath (qb\<lparr>assignments := tqa\<rparr>) request = Inr queuePath"
    and "treeGetNode h (queueTree qb) (take 1 queuePath) = None"
  shows "enqueueRequestBack h (qb\<lparr>maxTenantQueueSize := m\<rparr>) request tenantMaxQueriers =
           (case treeEnqueueBackByPath h (queueTree qb) queuePath request of
              Inl p \<Rightarrow> Inl p
            | Inr (err, t) \<Rightarrow>
                Inr (err, qb\<lparr>maxTenantQueueSize := m, assignments := tqa, queueTree := t\<rparr>))
         \<and> (\<forall>t. treeEnqueueBackByPath h (queueTree qb) queuePath request = Inr (None, t) \<longrightarrow>
              enqueueRequestBack h (qb\<lparr>maxTenantQueueSize := m\<rparr>) request tenantMaxQueriers =
                Inr (None, qb\<lparr>maxTenantQueueSize := m, assignments := tqa, queueTree := t\<rparr>))"
  using assms
  by (simp add: enqueueRequestBack_def makeQueuePath_def split: sum.splits prod.splits)

theorem enqueueRequestBack_no_node_no_limit_witness:
  "opCreateOrUpdateTenant roundRobinHelpers (assignments (emptyBroker 5 True)) (tenantID request2) 3 =
     (None, (assignments (emptyBroker 5 True))\<lparr>tenantsByID := [''tenant-1'' \<mapsto> 3]\<rparr>)
   \<and> makeQueuePath ((emptyBroker 5 True)
         \<lparr>assignments := (assignments (emptyBroker 5 True))\<lparr>tenantsByID := [''tenant-1'' \<mapsto> 3]\<rparr>\<rparr>)
         request2 = Inr [''tenant-1'', ''ingester'']
   \<and> treeGetNode roundRobinHelpers (queueTree (emptyBroker 5 True)) (take 1 [''tenant-1'', ''ingester''])
       = None
   \<and> enqueueRequestBack roundRobinHelpers ((emptyBroker 5 True)\<lparr>maxTenantQueueSize := 0\<rparr>) request2 3 =
       Inr (None, (emptyBroker 5 True)
              \<lparr>maxTenantQueueSize := 0,
               assignments := (assignments (emptyBroker 5 True))\<lparr>tenantsByID := [''tenant-1'' \<mapsto> 3]\<rparr>,
               queueTree :=
                 \<lparr>rootNode =
                    Node ''root'' []
                      [(''tenant-1'',
                        Node ''tenant-1'' []
                          [(''ingester'', Node ''ingester'' [request2] [] [] localQueueIndex)]
                          [''ingester''] localQueueIndex)]
                      [''tenant-1''] localQueueIndex,
                  algosByDepth = [RoundRobin, RoundRobin, RoundRobin]\<rparr>\<rparr>)"
proof -
  have c: "opCreateOrUpdateTenant roundRobinHelpers (assignments (emptyBroker 5 True)) (tenantID request2) 3 =
     (None, (assignments (emptyBroker 5 True))\<lparr>tenantsByID := [''tenant-1'' \<mapsto> 3]\<rparr>)"
    by (simp add: roundRobinHelpers_def emptyBroker_def request2_def makeQueuePath_def
          tree_enqueue_defs)
  have p: "makeQueuePath ((emptyBroker 5 True)
         \<lparr>assignments := (assignments (emptyBroker 5 True))\<lparr>tenantsByID := [''tenant-1'' \<mapsto> 3]\<rparr>\<rparr>)
         request2 = Inr [''tenant-1'', ''ingester'']"
    by (simp add: roundRobinHelpers_def emptyBroker_def request2_def makeQueuePath_def
          tree_enqueue_defs)
  have g: "treeGetNode roundRobinHelpers (queueTree (emptyBroker 5 True))
             (take 1 [''tenant-1'', ''ingester'']) = None"
    by (simp add: roundRobinHelpers_def emptyBroker_def request2_def makeQueuePath_def
          tree_enqueue_defs)
  have e: "treeEnqueueBackByPath roundRobinHelpers (queueTree (emptyBroker 5 True))
             [''tenant-1'', ''ingester''] request2 =
           Inr (None,
                \<lparr>rootNode =
                    Node ''root'' []
                      [(''tenant-1'',
                        Node ''tenant-1'' []
                          [(''ingester'', Node ''ingester'' [request2] [] [] localQueueIndex)]
                          [''ingester''] localQueueIndex)]
                      [''tenant-1''] localQueueIndex,
                  algosByDepth = [RoundRobin, RoundRobin, RoundRobin]\<rparr>)"
    by (simp add: roundRobinHelpers_def emptyBroker_def request2_def makeQueuePath_def
          tree_enqueue_defs)
  from enqueueRequestBack_no_node_no_limit [OF c p g, of 0] e c p g show ?thesis
    by blast
qed

section \<open>Dequeueing for a querier\<close>

text \<open>
  C8. \<^verbatim>\<open>dequeueRequestForQuerier\<close> returns \<^verbatim>\<open>ErrQuerierShuttingDown\<close> exactly when the
  querier is not registered or is marked as shutting down, and then the broker (tree,
  assignments, shared queue position) is as before the call and the returned position is
  the stored one. For an active querier a call that returns does not return an error;
  when the tree's dequeue yields no element, the call returns a nil request and a nil
  error.
\<close>

theorem dequeueRequestForQuerier_errors:
  "(\<not> querierActive qb querierID \<longrightarrow>
      dequeueRequestForQuerier h qb lastTenantIndex querierID =
        Some (Inr ((None, None, sharedQueuePosition (treeShuffleShardState qb),
                    Some ErrQuerierShuttingDown), qb)))
   \<and> (querierActive qb querierID \<longrightarrow>
        (\<forall>r tn i e qb'. dequeueRequestForQuerier h qb lastTenantIndex querierID
                           \<noteq> Some (Inr ((r, tn, i, Some e), qb'))))
   \<and> (\<exists>r tn i qb'. dequeueRequestForQuerier h qb lastTenantIndex querierID
                       = Some (Inr ((r, tn, i, Some ErrQuerierShuttingDown), qb')))
       = (\<not> querierActive qb querierID)
   \<and> (querierActive qb querierID \<longrightarrow>
        (\<forall>queuePath t pos.
           treeDequeue h (qb\<lparr>currentQuerier := querierID,
                              treeShuffleShardState :=
                                (treeShuffleShardState qb)\<lparr>sharedQueuePosition := lastTenantIndex\<rparr>\<rparr>)
             = Some (Inr (queuePath, None, t, pos)) \<and> queuePath \<noteq> [] \<longrightarrow>
           (\<exists>tn i qb'. dequeueRequestForQuerier h qb lastTenantIndex querierID
                           = Some (Inr ((None, tn, i, None), qb')))))"
proof -
  have inactive: "\<not> querierActive qb querierID \<longrightarrow>
      dequeueRequestForQuerier h qb lastTenantIndex querierID =
        Some (Inr ((None, None, sharedQueuePosition (treeShuffleShardState qb),
                    Some ErrQuerierShuttingDown), qb))"
    by (auto simp: dequeueRequestForQuerier_def querierActive_def split: option.splits)
  have active: "querierActive qb querierID \<longrightarrow>
        (\<forall>r tn i e qb'. dequeueRequestForQuerier h qb lastTenantIndex querierID
                           \<noteq> Some (Inr ((r, tn, i, Some e), qb')))"
    by (auto simp: dequeueRequestForQuerier_def querierActive_def Let_def
             split: option.splits sum.splits prod.splits)
  have empty: "querierActive qb querierID \<longrightarrow>
        (\<forall>queuePath t pos.
           treeDequeue h (qb\<lparr>currentQuerier := querierID,
                              treeShuffleShardState :=
                                (treeShuffleShardState qb)\<lparr>sharedQueuePosition := lastTenantIndex\<rparr>\<rparr>)
             = Some (Inr (queuePath, None, t, pos)) \<and> queuePath \<noteq> [] \<longrightarrow>
           (\<exists>tn i qb'. dequeueRequestForQuerier h qb lastTenantIndex querierID
                           = Some (Inr ((None, tn, i, None), qb'))))"
    by (auto simp: dequeueRequestForQuerier_def querierActive_def Let_def
             split: option.splits sum.splits prod.splits)
  from inactive active empty show ?thesis
    by blast
qed

theorem dequeueRequestForQuerier_errors_witness:
  "\<not> querierActive (oneRequestBroker 1) ''querier-2''
   \<and> dequeueRequestForQuerier roundRobinHelpers (oneRequestBroker 1) 3 ''querier-2'' =
       Some (Inr ((None, None, localQueueIndex, Some ErrQuerierShuttingDown), oneRequestBroker 1))
   \<and> \<not> querierActive (oneRequestBroker 1) ''querier-3''
   \<and> dequeueRequestForQuerier roundRobinHelpers (oneRequestBroker 1) 3 ''querier-3'' =
       Some (Inr ((None, None, localQueueIndex, Some ErrQuerierShuttingDown), oneRequestBroker 1))
   \<and> querierActive (emptyBroker 1 False) ''querier-1''
   \<and> dequeueRequestForQuerier roundRobinHelpers (emptyBroker 1 False) 3 ''querier-1'' =
       Some (Inr ((None, None, 3, None),
                  (emptyBroker 1 False)\<lparr>currentQuerier := ''querier-1'',
                                        treeShuffleShardState := \<lparr>sharedQueuePosition = 3\<rparr>\<rparr>))"
proof -
  have down: "\<not> querierActive (oneRequestBroker 1) ''querier-2''"
    by (simp add: querierActive_def oneRequestBroker_def emptyBroker_def)
  have unknown: "\<not> querierActive (oneRequestBroker 1) ''querier-3''"
    by (simp add: querierActive_def oneRequestBroker_def emptyBroker_def)
  have up: "querierActive (emptyBroker 1 False) ''querier-1''"
    by (simp add: querierActive_def emptyBroker_def)
  have pos: "sharedQueuePosition (treeShuffleShardState (oneRequestBroker 1)) = localQueueIndex"
    by (simp add: oneRequestBroker_def emptyBroker_def)
  have a: "dequeueRequestForQuerier roundRobinHelpers (oneRequestBroker 1) 3 ''querier-2'' =
       Some (Inr ((None, None, localQueueIndex, Some ErrQuerierShuttingDown), oneRequestBroker 1))"
    using dequeueRequestForQuerier_errors [of "oneRequestBroker 1" "''querier-2''" roundRobinHelpers 3]
      down pos
    by simp
  have b: "dequeueRequestForQuerier roundRobinHelpers (oneRequestBroker 1) 3 ''querier-3'' =
       Some (Inr ((None, None, localQueueIndex, Some ErrQuerierShuttingDown), oneRequestBroker 1))"
    using dequeueRequestForQuerier_errors [of "oneRequestBroker 1" "''querier-3''" roundRobinHelpers 3]
      unknown pos
    by simp
  have c: "dequeueRequestForQuerier roundRobinHelpers (emptyBroker 1 False) 3 ''querier-1'' =
       Some (Inr ((None, None, 3, None),
                  (emptyBroker 1 False)\<lparr>currentQuerier := ''querier-1'',
                                        treeShuffleShardState := \<lparr>sharedQueuePosition = 3\<rparr>\<rparr>))"
    by (simp add: dequeueRequestForQuerier_def roundRobinHelpers_def emptyBroker_def Let_def
          NewTree_def newNode_def IsEmpty_def emptyTenantID_def eval_nat_numeral)
  from down a unknown b up c show ?thesis
    by blast
qed

end
